theory Spec2Isabelle
  imports Main
begin

section \<open>Values, errors and the outside world\<close>

text \<open>
  The values that \<^verbatim>\<open>yaml.load\<close> and the Canvas client hand to
  \<^verbatim>\<open>submit_assignment.py\<close>: Python's \<^verbatim>\<open>None\<close>, booleans, integers, strings, lists
  and dicts. A dict is an association list read with \<open>map_of\<close>; insertion order is kept.
  Every other scalar (a float, a date) takes the same branches as \<open>PInt\<close> everywhere
  below: it is neither \<^verbatim>\<open>str\<close> nor \<^verbatim>\<open>dict\<close>, has no \<^verbatim>\<open>keys\<close>, and is neither
  iterable nor subscriptable.
\<close>

datatype pyval =
    PNone
  | PBool bool
  | PInt int
  | PStr string
  | PList "pyval list"
  | PDict "(pyval \<times> pyval) list"

text \<open>
  The exceptions the module raises, each with the arguments its message is formatted
  from:
  \<^item> \<open>MustBeDirectory p\<close>: \<^verbatim>\<open>"'path' ({}) must be a directory."\<close>;
  \<^item> \<open>DoesNotExist p\<close>: \<^verbatim>\<open>"{} does not exist"\<close>;
  \<^item> \<open>MissingRequiredKeys ks\<close>: \<^verbatim>\<open>"provided configuration file is missing required keys: {}"\<close>;
  \<^item> \<open>UnexpectedTypeInFileList\<close>: \<^verbatim>\<open>"unexpected type detected in file list"\<close>;
  \<^item> \<open>UnexpectedTypeInZipFileList\<close>: \<^verbatim>\<open>"unexpected type detected in zip file list"\<close>;
  \<^item> \<open>MustBeFile\<close>: \<^verbatim>\<open>"'path' must be a valid path to a file."\<close>;
  \<^item> \<open>FailedToUpload p\<close>: \<^verbatim>\<open>"Failed to upload {}."\<close>.

  \<open>KeyError\<close>, \<open>TypeError\<close> and \<open>AttributeError\<close> are what the interpreter raises
  for a missing dict key, for iterating or subscripting a value that does not allow
  it, and for \<^verbatim>\<open>.keys()\<close> on a value that is not a dict.
\<close>

datatype message =
    MustBeDirectory string
  | DoesNotExist string
  | MissingRequiredKeys "string list"
  | UnexpectedTypeInFileList
  | UnexpectedTypeInZipFileList
  | MustBeFile
  | FailedToUpload string

datatype error =
    ValueError message
  | FileNotFoundError message
  | IOError message
  | KeyError string
  | TypeError
  | AttributeError

text \<open>
  What a run does to the outside: it parses the include file, prints, and calls the
  Canvas client. Each of these is recorded, in order, in a trace; an upload is recorded
  with the pair \<^verbatim>\<open>(success, response)\<close> that \<^verbatim>\<open>Uploader.start\<close> returned.
\<close>

datatype event =
    LoadYaml string
  | Print pyval
  | GetCurrentUser
  | UploadCall string string bool pyval
  | GetCourse pyval
  | GetAssignment pyval pyval
  | SubmitCall pyval pyval pyval

fun is_network :: "event \<Rightarrow> bool" where
  "is_network (LoadYaml _) = False"
| "is_network (Print _) = False"
| "is_network _ = True"

text \<open>
  The libraries the module calls (\<^verbatim>\<open>os.path\<close>, \<^verbatim>\<open>glob\<close>, \<^verbatim>\<open>yaml\<close>, \<^verbatim>\<open>canvasapi\<close>)
  are parameters: functions of a world \<open>'w\<close> (the file system and the server). Reading
  the file system leaves the world as it is; a call of the Canvas client returns its
  value and the next world. The calls are modelled as returning: an exception raised
  inside a library is outside the model. \<open>str_format\<close> is the text that
  \<^verbatim>\<open>str.format\<close> puts in place of \<^verbatim>\<open>{}\<close> for a value.
\<close>

record 'w env =
  os_path_isdir :: "'w \<Rightarrow> string \<Rightarrow> bool"
  os_path_isfile :: "'w \<Rightarrow> string \<Rightarrow> bool"
  yaml_load :: "'w \<Rightarrow> string \<Rightarrow> pyval"
  glob_glob :: "'w \<Rightarrow> string \<Rightarrow> string list"
  str_format :: "pyval \<Rightarrow> string"
  canvas_get_current_user :: "'w \<Rightarrow> pyval \<times> pyval \<Rightarrow> pyval \<times> 'w"
  uploader_start :: "'w \<Rightarrow> pyval \<times> pyval \<Rightarrow> string \<Rightarrow> string \<Rightarrow> (bool \<times> pyval) \<times> 'w"
  canvas_get_course :: "'w \<Rightarrow> pyval \<times> pyval \<Rightarrow> pyval \<Rightarrow> 'w"
  course_get_assignment :: "'w \<Rightarrow> pyval \<Rightarrow> pyval \<Rightarrow> 'w"
  assignment_submit :: "'w \<Rightarrow> pyval \<times> pyval \<Rightarrow> pyval \<Rightarrow> pyval \<times> 'w"

type_synonym 'w state = "'w \<times> event list"

subsection \<open>Python primitives\<close>

text \<open>\<^verbatim>\<open>os.path.join(a, b)\<close> for two arguments, as \<^verbatim>\<open>posixpath\<close> computes it.\<close>

definition os_path_join :: "string \<Rightarrow> string \<Rightarrow> string" where
  "os_path_join a b =
     (if b \<noteq> [] \<and> hd b = CHR ''/'' then b
      else if a = [] \<or> last a = CHR ''/'' then a @ b
      else a @ ''/'' @ b)"

text \<open>\<^verbatim>\<open>v[key]\<close> for a string key: only a dict can be subscripted by a string.\<close>

fun py_getitem :: "pyval \<Rightarrow> string \<Rightarrow> error + pyval" where
  "py_getitem (PDict kvs) key =
     (case map_of kvs (PStr key) of None \<Rightarrow> Inl (KeyError key) | Some v \<Rightarrow> Inr v)"
| "py_getitem _ key = Inl TypeError"

text \<open>\<^verbatim>\<open>d[key] = v\<close> on a dict: replaces the value of a present key, else appends.\<close>

fun py_setitem :: "(pyval \<times> pyval) list \<Rightarrow> string \<Rightarrow> pyval \<Rightarrow> (pyval \<times> pyval) list" where
  "py_setitem [] key v = [(PStr key, v)]"
| "py_setitem ((k, u) # kvs) key v =
     (if k = PStr key then (k, v) # kvs else (k, u) # py_setitem kvs key v)"

text \<open>
  What \<^verbatim>\<open>for entry in v\<close> runs through: the elements of a list, the one-character
  strings of a string, the keys of a dict; anything else is not iterable.
\<close>

fun py_iter :: "pyval \<Rightarrow> error + pyval list" where
  "py_iter (PList xs) = Inr xs"
| "py_iter (PStr s) = Inr (map (\<lambda>c. PStr [c]) s)"
| "py_iter (PDict kvs) = Inr (map fst kvs)"
| "py_iter _ = Inl TypeError"

section \<open>ConfigOptions and ConfigReader\<close>

text \<open>The values of the enumeration \<^verbatim>\<open>ConfigOptions\<close>, in declaration order.\<close>

definition AID :: string where "AID = ''assignment_id''"
definition CID :: string where "CID = ''course_id''"
definition URL :: string where "URL = ''canvas_url''"
definition FILES :: string where "FILES = ''files''"
definition API_KEY :: string where "API_KEY = ''api_key''"

definition FIRST_LEVEL_KEYS :: "string list" where
  "FIRST_LEVEL_KEYS = [AID, CID, URL, FILES, API_KEY]"

text \<open>
  \<^verbatim>\<open>ConfigReader\<close> holds \<^verbatim>\<open>path\<close> and \<^verbatim>\<open>include_file\<close>; the attributes it sets while
  reading (\<^verbatim>\<open>config\<close>, \<^verbatim>\<open>file_list\<close>, \<^verbatim>\<open>zip_file_list\<close>) are passed as values
  between the functions below.
\<close>

record config_reader =
  path :: string
  include_file :: string

text \<open>
  The loop of \<^verbatim>\<open>__validate_config\<close>: \<open>keys\<close> is \<^verbatim>\<open>self.config.keys()\<close>, the
  accumulator is \<^verbatim>\<open>bad_keys\<close>.
\<close>

fun collect_bad_keys :: "pyval list \<Rightarrow> string list \<Rightarrow> string list \<Rightarrow> string list" where
  "collect_bad_keys keys [] bad_keys = bad_keys"
| "collect_bad_keys keys (key # rest) bad_keys =
     (if PStr key \<notin> set keys then collect_bad_keys keys rest (bad_keys @ [key])
      else collect_bad_keys keys rest bad_keys)"

fun validate_config :: "pyval \<Rightarrow> error + unit" where
  "validate_config (PDict kvs) =
     (let bad_keys = collect_bad_keys (map fst kvs) FIRST_LEVEL_KEYS []
      in if bad_keys \<noteq> [] then Inl (ValueError (MissingRequiredKeys bad_keys)) else Inr ())"
| "validate_config _ = Inl AttributeError"

text \<open>
  The first loop of \<^verbatim>\<open>_get_file_list\<close>, over the entries of \<^verbatim>\<open>files\<close>, with its two
  variables \<^verbatim>\<open>globs_to_zip\<close> and \<^verbatim>\<open>file_list\<close>. A dict with the key \<^verbatim>\<open>"zip"\<close>
  replaces \<^verbatim>\<open>globs_to_zip\<close>; a dict without it falls through to the \<^verbatim>\<open>else\<close>.
\<close>

fun file_list_loop ::
  "'w env \<Rightarrow> 'w \<Rightarrow> string \<Rightarrow> pyval list \<Rightarrow> pyval \<Rightarrow> string list \<Rightarrow> error + (pyval \<times> string list)" where
  "file_list_loop E w p [] globs_to_zip file_list = Inr (globs_to_zip, file_list)"
| "file_list_loop E w p (PDict kvs # rest) globs_to_zip file_list =
     (case map_of kvs (PStr ''zip'') of
        Some z \<Rightarrow> file_list_loop E w p rest z file_list
      | None \<Rightarrow> Inl (ValueError UnexpectedTypeInFileList))"
| "file_list_loop E w p (PStr entry # rest) globs_to_zip file_list =
     file_list_loop E w p rest globs_to_zip (file_list @ glob_glob E w (os_path_join p entry))"
| "file_list_loop E w p (_ # rest) globs_to_zip file_list =
     Inl (ValueError UnexpectedTypeInFileList)"

text \<open>The second loop, over \<^verbatim>\<open>globs_to_zip\<close>, with its variable \<^verbatim>\<open>zip_file_list\<close>.\<close>

fun zip_list_loop :: "'w env \<Rightarrow> 'w \<Rightarrow> string \<Rightarrow> pyval list \<Rightarrow> string list \<Rightarrow> error + string list" where
  "zip_list_loop E w p [] zip_file_list = Inr zip_file_list"
| "zip_list_loop E w p (PStr entry # rest) zip_file_list =
     zip_list_loop E w p rest (zip_file_list @ glob_glob E w (os_path_join p entry))"
| "zip_list_loop E w p (_ # rest) zip_file_list =
     Inl (ValueError UnexpectedTypeInZipFileList)"

text \<open>\<^verbatim>\<open>_get_file_list\<close>: returns \<^verbatim>\<open>(file_list, zip_file_list)\<close>.\<close>

definition get_file_list :: "'w env \<Rightarrow> 'w \<Rightarrow> string \<Rightarrow> pyval \<Rightarrow> error + (string list \<times> string list)" where
  "get_file_list E w p config =
     (case py_getitem config FILES of
        Inl e \<Rightarrow> Inl e
      | Inr files \<Rightarrow>
          (case py_iter files of
             Inl e \<Rightarrow> Inl e
           | Inr entries \<Rightarrow>
               (case file_list_loop E w p entries (PList []) [] of
                  Inl e \<Rightarrow> Inl e
                | Inr (globs_to_zip, file_list) \<Rightarrow>
                    (case py_iter globs_to_zip of
                       Inl e \<Rightarrow> Inl e
                     | Inr zs \<Rightarrow>
                         (case zip_list_loop E w p zs [] of
                            Inl e \<Rightarrow> Inl e
                          | Inr zip_file_list \<Rightarrow> Inr (file_list, zip_file_list))))))"

text \<open>\<^verbatim>\<open>ConfigReader.read\<close>: returns \<^verbatim>\<open>(config, file_list, zip_file_list)\<close>.\<close>

definition read ::
  "'w env \<Rightarrow> config_reader \<Rightarrow> 'w state \<Rightarrow> (error + (pyval \<times> string list \<times> string list)) \<times> 'w state" where
  "read E self st =
     (case st of (w, tr) \<Rightarrow>
        if \<not> os_path_isdir E w (path self) then
          (Inl (ValueError (MustBeDirectory (path self))), st)
        else
          let include_file_path = os_path_join (path self) (include_file self) in
          if \<not> os_path_isfile E w include_file_path then
            (Inl (FileNotFoundError (DoesNotExist include_file_path)), st)
          else
            let canvas_config = yaml_load E w include_file_path;
                st1 = (w, tr @ [LoadYaml include_file_path])
            in (case validate_config canvas_config of
                  Inl e \<Rightarrow> (Inl e, st1)
                | Inr _ \<Rightarrow>
                    (case get_file_list E w (path self) canvas_config of
                       Inl e \<Rightarrow> (Inl e, st1)
                     | Inr (file_list, zip_file_list) \<Rightarrow>
                         (Inr (canvas_config, file_list, zip_file_list), st1))))"

section \<open>CanvasAssignment\<close>

text \<open>
  The attributes of a \<^verbatim>\<open>CanvasAssignment\<close>. \<^verbatim>\<open>Canvas(url, key)\<close> and
  \<^verbatim>\<open>Requester(url, key)\<close> are the pair they are built from.
\<close>

record canvas_assignment =
  file_list :: "string list"
  zip_file_list :: "string list"
  assignment_id :: pyval
  course_id :: pyval
  canvas :: "pyval \<times> pyval"
  requester :: "pyval \<times> pyval"
  user_id :: pyval

text \<open>\<^verbatim>\<open>CanvasAssignment.__init__\<close>.\<close>

definition canvas_assignment_init ::
  "'w env \<Rightarrow> string \<Rightarrow> string \<Rightarrow> 'w state \<Rightarrow> (error + canvas_assignment) \<times> 'w state" where
  "canvas_assignment_init E p inc st =
     (case read E \<lparr>path = p, include_file = inc\<rparr> st of
        (Inl e, st1) \<Rightarrow> (Inl e, st1)
      | (Inr (config, fl, zfl), st1) \<Rightarrow>
          (case py_getitem config AID of Inl e \<Rightarrow> (Inl e, st1) | Inr aid \<Rightarrow>
          (case py_getitem config CID of Inl e \<Rightarrow> (Inl e, st1) | Inr cid \<Rightarrow>
          (case py_getitem config URL of Inl e \<Rightarrow> (Inl e, st1) | Inr url \<Rightarrow>
          (case py_getitem config API_KEY of Inl e \<Rightarrow> (Inl e, st1) | Inr key \<Rightarrow>
            (case st1 of (w1, tr1) \<Rightarrow>
               (case canvas_get_current_user E w1 (url, key) of (uid, w2) \<Rightarrow>
                  (Inr \<lparr>file_list = fl, zip_file_list = zfl, assignment_id = aid,
                        course_id = cid, canvas = (url, key), requester = (url, key),
                        user_id = uid\<rparr>,
                   (w2, tr1 @ [GetCurrentUser, Print uid])))))))))"

text \<open>\<^verbatim>\<open>get_course\<close> and \<^verbatim>\<open>get_assignment\<close>: the handle returned is the identifiers it was asked for.\<close>

definition get_course :: "'w env \<Rightarrow> canvas_assignment \<Rightarrow> 'w state \<Rightarrow> pyval \<times> 'w state" where
  "get_course E self st =
     (case st of (w, tr) \<Rightarrow>
        (course_id self,
         (canvas_get_course E w (canvas self) (course_id self), tr @ [GetCourse (course_id self)])))"

definition get_assignment :: "'w env \<Rightarrow> canvas_assignment \<Rightarrow> 'w state \<Rightarrow> (pyval \<times> pyval) \<times> 'w state" where
  "get_assignment E self st =
     (case st of (w, tr) \<Rightarrow>
        let w1 = canvas_get_course E w (canvas self) (course_id self);
            w2 = course_get_assignment E w1 (course_id self) (assignment_id self)
        in ((course_id self, assignment_id self),
            (w2, tr @ [GetCourse (course_id self),
                       GetAssignment (course_id self) (assignment_id self)])))"

text \<open>\<^verbatim>\<open>_zip_files\<close> is \<^verbatim>\<open>pass\<close>: it returns \<^verbatim>\<open>None\<close>.\<close>

definition zip_files :: "canvas_assignment \<Rightarrow> pyval" where
  "zip_files self = PNone"

text \<open>\<^verbatim>\<open>upload_file_to_assignment\<close>.\<close>

definition upload_file_to_assignment ::
  "'w env \<Rightarrow> pyval \<times> pyval \<Rightarrow> pyval \<Rightarrow> pyval \<Rightarrow> pyval \<Rightarrow> string \<Rightarrow> 'w state
     \<Rightarrow> (error + (bool \<times> pyval)) \<times> 'w state" where
  "upload_file_to_assignment E req cid assn_id uid p st =
     (case st of (w, tr) \<Rightarrow>
        if \<not> os_path_isfile E w p then (Inl (ValueError MustBeFile), st)
        else
          let upload_url = ''/api/v1/courses/'' @ str_format E cid
                @ ''/assignments/'' @ str_format E assn_id
                @ ''/submissions/'' @ str_format E uid @ ''/files''
          in (case uploader_start E w req upload_url p of
                ((success, response), w1) \<Rightarrow>
                  (Inr (success, response),
                   (w1, tr @ [Print (PStr upload_url), Print (PStr p),
                              UploadCall upload_url p success response]))))"

text \<open>The loop of \<^verbatim>\<open>submit\<close> over \<^verbatim>\<open>self.file_list\<close>, with its variable \<^verbatim>\<open>file_ids\<close>.\<close>

fun upload_loop ::
  "'w env \<Rightarrow> canvas_assignment \<Rightarrow> string list \<Rightarrow> pyval list \<Rightarrow> 'w state
     \<Rightarrow> (error + pyval list) \<times> 'w state" where
  "upload_loop E self [] file_ids st = (Inr file_ids, st)"
| "upload_loop E self (p # rest) file_ids st =
     (case upload_file_to_assignment E (requester self) (course_id self)
             (assignment_id self) (user_id self) p st of
        (Inl e, st1) \<Rightarrow> (Inl e, st1)
      | (Inr (success, response), st1) \<Rightarrow>
          if \<not> success then (Inl (IOError (FailedToUpload p)), st1)
          else (case py_getitem response ''id'' of
                  Inl e \<Rightarrow> (Inl e, st1)
                | Inr i \<Rightarrow> upload_loop E self rest (file_ids @ [i]) st1))"

text \<open>\<^verbatim>\<open>CanvasAssignment.submit\<close>.\<close>

definition submit :: "'w env \<Rightarrow> canvas_assignment \<Rightarrow> 'w state \<Rightarrow> (error + pyval) \<times> 'w state" where
  "submit E self st =
     (case upload_loop E self (file_list self) [] st of
        (Inl e, st1) \<Rightarrow> (Inl e, st1)
      | (Inr file_ids, st1) \<Rightarrow>
          let submission = py_setitem (py_setitem [] ''file_ids'' (PList file_ids))
                             ''submission_type'' (PStr ''online_upload'')
          in (case get_assignment E self st1 of
                (asg, (w2, tr2)) \<Rightarrow>
                  (case assignment_submit E w2 asg (PDict submission) of
                     (record, w3) \<Rightarrow>
                       (Inr record,
                        (w3, tr2 @ [SubmitCall (fst asg) (snd asg) (PDict submission)])))))"

section \<open>Notions used in the statements\<close>

text \<open>
  The shapes of a file-list entry: a string, or a dict holding the key \<^verbatim>\<open>"zip"\<close>.
\<close>

fun is_str :: "pyval \<Rightarrow> bool" where
  "is_str (PStr _) = True"
| "is_str _ = False"

fun is_zip_entry :: "pyval \<Rightarrow> bool" where
  "is_zip_entry (PDict kvs) = (map_of kvs (PStr ''zip'') \<noteq> None)"
| "is_zip_entry _ = False"

definition valid_entry :: "pyval \<Rightarrow> bool" where
  "valid_entry e = (is_str e \<or> is_zip_entry e)"

text \<open>The strings among a list of entries, in order.\<close>

fun direct_patterns :: "pyval list \<Rightarrow> string list" where
  "direct_patterns [] = []"
| "direct_patterns (PStr s # rest) = s # direct_patterns rest"
| "direct_patterns (_ # rest) = direct_patterns rest"

text \<open>The values under \<^verbatim>\<open>"zip"\<close> of the zip-shaped entries, in order.\<close>

fun zip_groups :: "pyval list \<Rightarrow> pyval list" where
  "zip_groups [] = []"
| "zip_groups (PDict kvs # rest) =
     (case map_of kvs (PStr ''zip'') of Some z \<Rightarrow> z # zip_groups rest | None \<Rightarrow> zip_groups rest)"
| "zip_groups (_ # rest) = zip_groups rest"

text \<open>
  Glob expansion of a list of patterns against a base directory: the matches of each
  pattern, joined to the directory, one pattern after the other.
\<close>

definition expand :: "'w env \<Rightarrow> 'w \<Rightarrow> string \<Rightarrow> string list \<Rightarrow> string list" where
  "expand E w p pats = concat (map (\<lambda>s. glob_glob E w (os_path_join p s)) pats)"

text \<open>
  The upload calls of a trace, each as (path, success, response), and the payloads of
  its submission calls.
\<close>

fun uploads :: "event list \<Rightarrow> (string \<times> bool \<times> pyval) list" where
  "uploads [] = []"
| "uploads (UploadCall u p ok r # tr) = (p, ok, r) # uploads tr"
| "uploads (_ # tr) = uploads tr"

fun submissions :: "event list \<Rightarrow> pyval list" where
  "submissions [] = []"
| "submissions (SubmitCall c a s # tr) = s # submissions tr"
| "submissions (_ # tr) = submissions tr"

fun up_path :: "string \<times> bool \<times> pyval \<Rightarrow> string" where
  "up_path (p, ok, r) = p"

fun up_success :: "string \<times> bool \<times> pyval \<Rightarrow> bool" where
  "up_success (p, ok, r) = ok"

text \<open>The identifier an upload returned: \<^verbatim>\<open>response["id"]\<close>.\<close>

fun up_id :: "string \<times> bool \<times> pyval \<Rightarrow> error + pyval" where
  "up_id (p, ok, r) = py_getitem r ''id''"

text \<open>An upload call that reported success and returned an identifier.\<close>

definition good :: "string \<times> bool \<times> pyval \<Rightarrow> bool" where
  "good u = (up_success u \<and> \<not> isl (up_id u))"

text \<open>The payload \<^verbatim>\<open>{file_ids: ids, submission_type: "online_upload"}\<close>.\<close>

definition online_upload :: "pyval list \<Rightarrow> pyval" where
  "online_upload ids =
     PDict [(PStr ''file_ids'', PList ids), (PStr ''submission_type'', PStr ''online_upload'')]"

subsection \<open>A concrete world\<close>

text \<open>
  An assignment directory \<^verbatim>\<open>hw\<close> holding the include file, \<^verbatim>\<open>a/1.txt\<close>, \<^verbatim>\<open>a/2.txt\<close>
  and \<^verbatim>\<open>b/x.py\<close>. The include file parses to \<open>cfg\<close>. The world counts the upload
  calls made so far; the calls whose number is in \<open>failing\<close> report failure, the
  others return the identifiers 500, 501, ...
\<close>

definition example_files :: "string list" where
  "example_files = [''hw/.canvas-include.yml'', ''hw/a/1.txt'', ''hw/a/2.txt'', ''hw/b/x.py'']"

definition example_env :: "pyval \<Rightarrow> nat list \<Rightarrow> nat env" where
  "example_env cfg failing =
     \<lparr>os_path_isdir = (\<lambda>w p. p = ''hw''),
      os_path_isfile = (\<lambda>w p. p \<in> set example_files),
      yaml_load = (\<lambda>w p. cfg),
      glob_glob = (\<lambda>w pat.
         if pat = ''hw/a/*.txt'' then [''hw/a/1.txt'', ''hw/a/2.txt'']
         else if pat = ''hw/b/*.py'' then [''hw/b/x.py'']
         else []),
      str_format = (\<lambda>v. case v of PStr s \<Rightarrow> s | PInt i \<Rightarrow>
         (if i = 7 then ''7'' else if i = 42 then ''42'' else ''1001'') | _ \<Rightarrow> ''None''),
      canvas_get_current_user = (\<lambda>w c. (PInt 1001, w)),
      uploader_start = (\<lambda>w req url p.
         ((w \<notin> set failing,
           if w \<in> set failing then PNone else PDict [(PStr ''id'', PInt (500 + int w))]),
          Suc w)),
      canvas_get_course = (\<lambda>w c cid. w),
      course_get_assignment = (\<lambda>w cid aid. w),
      assignment_submit = (\<lambda>w asg s. (PDict [(PStr ''workflow_state'', PStr ''submitted'')], w))\<rparr>"

definition example_config :: "pyval \<Rightarrow> pyval" where
  "example_config files =
     PDict [(PStr ''assignment_id'', PInt 7), (PStr ''course_id'', PInt 42),
            (PStr ''canvas_url'', PStr ''https://canvas.example.edu''),
            (PStr ''files'', files), (PStr ''api_key'', PStr ''secret'')]"

definition example_assignment :: "string list \<Rightarrow> canvas_assignment" where
  "example_assignment fl =
     \<lparr>file_list = fl, zip_file_list = [''hw/b/x.py''], assignment_id = PInt 7,
      course_id = PInt 42,
      canvas = (PStr ''https://canvas.example.edu'', PStr ''secret''),
      requester = (PStr ''https://canvas.example.edu'', PStr ''secret''),
      user_id = PInt 1001\<rparr>"

definition example_reader :: config_reader where
  "example_reader = \<lparr>path = ''hw'', include_file = ''.canvas-include.yml''\<rparr>"

text \<open>An include file that parses to a mapping without \<^verbatim>\<open>files\<close> and \<^verbatim>\<open>api_key\<close>.\<close>

definition incomplete_config :: pyval where
  "incomplete_config =
     PDict [(PStr ''assignment_id'', PInt 7), (PStr ''course_id'', PInt 42),
            (PStr ''canvas_url'', PStr ''https://canvas.example.edu'')]"

text \<open>
  The file list \<^verbatim>\<open>["a/*.txt", {zip: ["b/*.py"]}]\<close>, and a zip-shaped entry that holds
  two more keys besides \<^verbatim>\<open>"zip"\<close>.
\<close>

definition spec_example_files :: pyval where
  "spec_example_files = PList [PStr ''a/*.txt'', PDict [(PStr ''zip'', PList [PStr ''b/*.py''])]]"

definition labelled_zip :: "(pyval \<times> pyval) list" where
  "labelled_zip = [(PStr ''name'', PStr ''sources''), (PStr ''zip'', PList [PStr ''b/*.py'']),
                   (PStr ''level'', PInt 9)]"

text \<open>
  File lists for the invalid-entry checks: one whose first zip group holds an integer
  and is followed by a second zip group, one with an integer among the direct entries,
  and one with an integer in its only zip group.
\<close>

definition overridden_zip_files :: pyval where
  "overridden_zip_files =
     PList [PDict [(PStr ''zip'', PList [PInt 1])], PStr ''a/*.txt'',
            PDict [(PStr ''zip'', PList [PStr ''b/*.py''])]]"

definition bad_direct_files :: pyval where
  "bad_direct_files = PList [PStr ''a/*.txt'', PInt 3]"

definition bad_zip_files :: pyval where
  "bad_zip_files = PList [PStr ''a/*.txt'', PDict [(PStr ''zip'', PList [PStr ''b/*.py'', PInt 1])]]"

text \<open>File lists with a pattern, \<^verbatim>\<open>c/*.md\<close>, that matches no file of \<^verbatim>\<open>hw\<close>.\<close>

definition unmatched_direct_files :: pyval where
  "unmatched_direct_files = PList [PStr ''a/*.txt'', PStr ''c/*.md'']"

definition unmatched_zip_files :: pyval where
  "unmatched_zip_files =
     PList [PStr ''a/*.txt'', PDict [(PStr ''zip'', PList [PStr ''c/*.md'', PStr ''b/*.py''])]]"

text \<open>
  Traces of runs of \<^verbatim>\<open>submit\<close> in that world: the upload of \<^verbatim>\<open>hw/a/1.txt\<close>; the run in
  which both uploads succeed; the run in which the second upload reports failure.
\<close>

definition example_url :: string where
  "example_url = ''/api/v1/courses/42/assignments/7/submissions/1001/files''"

definition first_upload_trace :: "event list" where
  "first_upload_trace =
     [Print (PStr example_url), Print (PStr ''hw/a/1.txt''),
      UploadCall example_url ''hw/a/1.txt'' True (PDict [(PStr ''id'', PInt 500)])]"

definition all_ok_trace :: "event list" where
  "all_ok_trace = first_upload_trace @
     [Print (PStr example_url), Print (PStr ''hw/a/2.txt''),
      UploadCall example_url ''hw/a/2.txt'' True (PDict [(PStr ''id'', PInt 501)]),
      GetCourse (PInt 42), GetAssignment (PInt 42) (PInt 7),
      SubmitCall (PInt 42) (PInt 7) (online_upload [PInt 500, PInt 501])]"

definition second_fails_trace :: "event list" where
  "second_fails_trace = first_upload_trace @
     [Print (PStr example_url), Print (PStr ''hw/a/2.txt''),
      UploadCall example_url ''hw/a/2.txt'' False PNone]"

text \<open>
  The same world with an upload endpoint that reports success and returns a response
  without the key \<^verbatim>\<open>"id"\<close>, and the trace of the upload of \<^verbatim>\<open>hw/a/1.txt\<close> there.
\<close>

definition no_id_env :: "nat env" where
  "no_id_env = (example_env PNone [])
     \<lparr>uploader_start := (\<lambda>w req url p. ((True, PDict [(PStr ''url'', PStr ''u'')]), Suc w))\<rparr>"

definition no_id_trace :: "event list" where
  "no_id_trace =
     [Print (PStr example_url), Print (PStr ''hw/a/1.txt''),
      UploadCall example_url ''hw/a/1.txt'' True (PDict [(PStr ''url'', PStr ''u'')])]"

section \<open>The loops, unfolded\<close>

lemmas ex_defs = example_env_def example_config_def example_assignment_def example_reader_def
  example_files_def

lemmas key_defs = FIRST_LEVEL_KEYS_def AID_def CID_def URL_def FILES_def API_KEY_def

lemma collect_bad_keys_filter:
  "collect_bad_keys keys ks acc = acc @ filter (\<lambda>k. PStr k \<notin> set keys) ks"
  by (induction ks arbitrary: acc) auto

lemma validate_config_dict:
  "validate_config (PDict kvs) =
     (if \<forall>k\<in>set FIRST_LEVEL_KEYS. PStr k \<in> fst ` set kvs then Inr ()
      else Inl (ValueError (MissingRequiredKeys
                  (filter (\<lambda>k. PStr k \<notin> fst ` set kvs) FIRST_LEVEL_KEYS))))"
  by (auto simp: collect_bad_keys_filter Let_def filter_empty_conv)

lemma file_list_loop_append:
  "file_list_loop E w p (pre @ rest) g fl =
     (case file_list_loop E w p pre g fl of
        Inl e \<Rightarrow> Inl e
      | Inr (g', fl') \<Rightarrow> file_list_loop E w p rest g' fl')"
  by (induction E w p pre g fl rule: file_list_loop.induct) (auto split: option.splits)

lemma zip_list_loop_append:
  "zip_list_loop E w p (pre @ rest) zl =
     (case zip_list_loop E w p pre zl of
        Inl e \<Rightarrow> Inl e
      | Inr zl' \<Rightarrow> zip_list_loop E w p rest zl')"
  by (induction E w p pre zl rule: zip_list_loop.induct) auto

lemma file_list_loop_valid:
  "list_all valid_entry entries \<Longrightarrow>
   file_list_loop E w p entries g fl =
     Inr (last (g # zip_groups entries), fl @ expand E w p (direct_patterns entries))"
  by (induction E w p entries g fl rule: file_list_loop.induct)
     (auto simp: valid_entry_def expand_def split: option.splits)

lemma file_list_loop_invalid:
  "\<not> list_all valid_entry entries \<Longrightarrow>
   file_list_loop E w p entries g fl = Inl (ValueError UnexpectedTypeInFileList)"
  by (induction E w p entries g fl rule: file_list_loop.induct)
     (auto simp: valid_entry_def split: option.splits)

lemma zip_list_loop_valid:
  "list_all is_str zs \<Longrightarrow>
   zip_list_loop E w p zs zl = Inr (zl @ expand E w p (direct_patterns zs))"
  by (induction E w p zs zl rule: zip_list_loop.induct) (auto simp: expand_def)

lemma zip_list_loop_invalid:
  "\<not> list_all is_str zs \<Longrightarrow>
   zip_list_loop E w p zs zl = Inl (ValueError UnexpectedTypeInZipFileList)"
  by (induction E w p zs zl rule: zip_list_loop.induct) auto

lemma get_file_list_list:
  "py_getitem config FILES = Inr (PList entries) \<Longrightarrow>
   get_file_list E w p config =
     (case file_list_loop E w p entries (PList []) [] of
        Inl e \<Rightarrow> Inl e
      | Inr (globs_to_zip, fl) \<Rightarrow>
          (case py_iter globs_to_zip of
             Inl e \<Rightarrow> Inl e
           | Inr zs \<Rightarrow>
               (case zip_list_loop E w p zs [] of
                  Inl e \<Rightarrow> Inl e
                | Inr zfl \<Rightarrow> Inr (fl, zfl))))"
  by (simp add: get_file_list_def)

lemma read_loaded:
  "os_path_isdir E w (path self) \<Longrightarrow>
   os_path_isfile E w (os_path_join (path self) (include_file self)) \<Longrightarrow>
   read E self (w, tr) =
     (case validate_config (yaml_load E w (os_path_join (path self) (include_file self))) of
        Inl e \<Rightarrow> (Inl e, (w, tr @ [LoadYaml (os_path_join (path self) (include_file self))]))
      | Inr _ \<Rightarrow>
          (case get_file_list E w (path self)
                  (yaml_load E w (os_path_join (path self) (include_file self))) of
             Inl e \<Rightarrow> (Inl e, (w, tr @ [LoadYaml (os_path_join (path self) (include_file self))]))
           | Inr (fl, zfl) \<Rightarrow>
               (Inr (yaml_load E w (os_path_join (path self) (include_file self)), fl, zfl),
                (w, tr @ [LoadYaml (os_path_join (path self) (include_file self))]))))"
  by (simp add: read_def Let_def)

lemma uploads_append: "uploads (xs @ ys) = uploads xs @ uploads ys"
  by (induction xs rule: uploads.induct) auto

lemma submissions_append: "submissions (xs @ ys) = submissions xs @ submissions ys"
  by (induction xs rule: submissions.induct) auto

lemma upload_loop_append:
  "upload_loop E self (pre @ rest) ids st =
     (case upload_loop E self pre ids st of
        (Inl e, st1) \<Rightarrow> (Inl e, st1)
      | (Inr ids1, st1) \<Rightarrow> upload_loop E self rest ids1 st1)"
  by (induction pre arbitrary: ids st) (auto split: prod.splits sum.splits)

section \<open>The configuration reader\<close>

text \<open>
  C7: \<^verbatim>\<open>ConfigReader.read\<close> fails with the must-be-a-directory \<^verbatim>\<open>ValueError\<close> when the
  path is not a directory, and otherwise with \<^verbatim>\<open>FileNotFoundError\<close> when the include
  file is not a file of that directory. In both cases the state is the one the call
  started in: the include file has not been parsed. When both checks pass, the include
  file is parsed, once.
\<close>

theorem C7_read_path_checks:
  "(\<not> os_path_isdir E w (path self) \<longrightarrow>
      read E self (w, tr) = (Inl (ValueError (MustBeDirectory (path self))), (w, tr))) \<and>
   (os_path_isdir E w (path self) \<and>
    \<not> os_path_isfile E w (os_path_join (path self) (include_file self)) \<longrightarrow>
      read E self (w, tr) =
        (Inl (FileNotFoundError (DoesNotExist (os_path_join (path self) (include_file self)))),
         (w, tr))) \<and>
   (os_path_isdir E w (path self) \<and>
    os_path_isfile E w (os_path_join (path self) (include_file self)) \<longrightarrow>
      snd (read E self (w, tr)) =
        (w, tr @ [LoadYaml (os_path_join (path self) (include_file self))]))"
  by (simp add: read_def Let_def split: sum.splits prod.splits)

theorem C7_read_path_checks_witness:
  "read (example_env PNone []) \<lparr>path = ''hw/a/1.txt'', include_file = ''.canvas-include.yml''\<rparr> (0, [])
     = (Inl (ValueError (MustBeDirectory ''hw/a/1.txt'')), (0, [])) \<and>
   read (example_env PNone []) \<lparr>path = ''hw'', include_file = ''missing.yml''\<rparr> (0, [])
     = (Inl (FileNotFoundError (DoesNotExist ''hw/missing.yml'')), (0, [])) \<and>
   snd (read (example_env PNone []) example_reader (0, []))
     = (0, [LoadYaml ''hw/.canvas-include.yml''])"
  using C7_read_path_checks [of "example_env PNone []"
          0 "\<lparr>path = ''hw/a/1.txt'', include_file = ''.canvas-include.yml''\<rparr>" "[]"]
        C7_read_path_checks [of "example_env PNone []"
          0 "\<lparr>path = ''hw'', include_file = ''missing.yml''\<rparr>" "[]"]
        C7_read_path_checks [of "example_env PNone []" 0 example_reader "[]"]
  by (simp add: ex_defs os_path_join_def)

text \<open>
  C3: for an include file that parses to a mapping, validation succeeds if and only if
  the five required keys \<^verbatim>\<open>assignment_id\<close>, \<^verbatim>\<open>course_id\<close>, \<^verbatim>\<open>canvas_url\<close>, \<^verbatim>\<open>files\<close>
  and \<^verbatim>\<open>api_key\<close> are all present. Then \<^verbatim>\<open>read\<close> goes on to resolve the file list;
  otherwise it fails with the \<^verbatim>\<open>ValueError\<close> that lists exactly the required keys that
  are absent, in declaration order.
\<close>

theorem C3_required_keys:
  assumes "os_path_isdir E w (path self)"
    and "os_path_isfile E w (os_path_join (path self) (include_file self))"
    and "yaml_load E w (os_path_join (path self) (include_file self)) = PDict kvs"
  shows "FIRST_LEVEL_KEYS = [''assignment_id'', ''course_id'', ''canvas_url'', ''files'', ''api_key''] \<and>
    (validate_config (PDict kvs) = Inr ()) = (\<forall>k\<in>set FIRST_LEVEL_KEYS. PStr k \<in> fst ` set kvs) \<and>
    ((\<forall>k\<in>set FIRST_LEVEL_KEYS. PStr k \<in> fst ` set kvs) \<longrightarrow>
       read E self (w, tr) =
         (case get_file_list E w (path self) (PDict kvs) of
            Inl e \<Rightarrow> (Inl e, (w, tr @ [LoadYaml (os_path_join (path self) (include_file self))]))
          | Inr (fl, zfl) \<Rightarrow>
              (Inr (PDict kvs, fl, zfl),
               (w, tr @ [LoadYaml (os_path_join (path self) (include_file self))])))) \<and>
    (\<not> (\<forall>k\<in>set FIRST_LEVEL_KEYS. PStr k \<in> fst ` set kvs) \<longrightarrow>
       read E self (w, tr) =
         (Inl (ValueError (MissingRequiredKeys
                 (filter (\<lambda>k. PStr k \<notin> fst ` set kvs) FIRST_LEVEL_KEYS))),
          (w, tr @ [LoadYaml (os_path_join (path self) (include_file self))])))"
proof -
  have keys: "FIRST_LEVEL_KEYS = [''assignment_id'', ''course_id'', ''canvas_url'', ''files'', ''api_key'']"
    by (simp add: FIRST_LEVEL_KEYS_def AID_def CID_def URL_def FILES_def API_KEY_def)
  have v: "(validate_config (PDict kvs) = Inr ()) = (\<forall>k\<in>set FIRST_LEVEL_KEYS. PStr k \<in> fst ` set kvs)"
    by (simp only: validate_config_dict) simp
  have r1: "(\<forall>k\<in>set FIRST_LEVEL_KEYS. PStr k \<in> fst ` set kvs) \<longrightarrow>
       read E self (w, tr) =
         (case get_file_list E w (path self) (PDict kvs) of
            Inl e \<Rightarrow> (Inl e, (w, tr @ [LoadYaml (os_path_join (path self) (include_file self))]))
          | Inr (fl, zfl) \<Rightarrow>
              (Inr (PDict kvs, fl, zfl),
               (w, tr @ [LoadYaml (os_path_join (path self) (include_file self))])))"
    by (simp only: read_loaded[OF assms(1,2)] assms(3) validate_config_dict) simp
  have r2: "\<not> (\<forall>k\<in>set FIRST_LEVEL_KEYS. PStr k \<in> fst ` set kvs) \<longrightarrow>
       read E self (w, tr) =
         (Inl (ValueError (MissingRequiredKeys
                 (filter (\<lambda>k. PStr k \<notin> fst ` set kvs) FIRST_LEVEL_KEYS))),
          (w, tr @ [LoadYaml (os_path_join (path self) (include_file self))]))"
    by (simp only: read_loaded[OF assms(1,2)] assms(3) validate_config_dict) simp
  from keys v r1 r2 show ?thesis by blast
qed

theorem C3_required_keys_witness:
  "os_path_isdir (example_env incomplete_config []) 0 (path example_reader) \<and>
   os_path_isfile (example_env incomplete_config []) 0
     (os_path_join (path example_reader) (include_file example_reader)) \<and>
   validate_config incomplete_config \<noteq> Inr () \<and>
   read (example_env incomplete_config []) example_reader (0, []) =
     (Inl (ValueError (MissingRequiredKeys [''files'', ''api_key''])),
      (0, [LoadYaml ''hw/.canvas-include.yml'']))"
proof -
  let ?E = "example_env incomplete_config []"
  let ?kvs = "[(PStr ''assignment_id'', PInt 7), (PStr ''course_id'', PInt 42),
            (PStr ''canvas_url'', PStr ''https://canvas.example.edu'')]"
  have j: "os_path_join (path example_reader) (include_file example_reader) = ''hw/.canvas-include.yml''"
    by (simp add: example_reader_def os_path_join_def)
  have h1: "os_path_isdir ?E 0 (path example_reader)"
    by (simp add: example_env_def example_reader_def)
  have h2: "os_path_isfile ?E 0 (os_path_join (path example_reader) (include_file example_reader))"
    by (simp add: j) (simp add: example_env_def example_files_def)
  have h3: "yaml_load ?E 0 (os_path_join (path example_reader) (include_file example_reader)) = PDict ?kvs"
    by (simp add: example_env_def incomplete_config_def)
  have absent: "\<not> (\<forall>k\<in>set FIRST_LEVEL_KEYS. PStr k \<in> fst ` set ?kvs)"
    by (simp add: key_defs)
  have bad: "filter (\<lambda>k. PStr k \<notin> fst ` set ?kvs) FIRST_LEVEL_KEYS = [''files'', ''api_key'']"
    by (simp add: key_defs)
  note t = C3_required_keys [OF h1 h2 h3, of "[]"]
  from t absent have v: "validate_config (PDict ?kvs) \<noteq> Inr ()" by blast
  from t absent have "read ?E example_reader (0, []) =
         (Inl (ValueError (MissingRequiredKeys
                 (filter (\<lambda>k. PStr k \<notin> fst ` set ?kvs) FIRST_LEVEL_KEYS))),
          (0, [] @ [LoadYaml (os_path_join (path example_reader) (include_file example_reader))]))"
    by blast
  then have r: "read ?E example_reader (0, []) =
     (Inl (ValueError (MissingRequiredKeys [''files'', ''api_key''])),
      (0, [LoadYaml ''hw/.canvas-include.yml'']))"
    by (simp only: bad j append_Nil)
  from h1 h2 v r show ?thesis by (simp only: incomplete_config_def simp_thms)
qed

text \<open>
  C4: for a valid configuration (the five keys present, \<^verbatim>\<open>files\<close> a list whose entries
  are strings or dicts with the key \<^verbatim>\<open>"zip"\<close>, the zip patterns in effect strings),
  \<^verbatim>\<open>read\<close> returns the configuration, the direct list and the zip list. The direct list
  is the glob expansion against the base directory of the string entries, in declared
  order; the zip list is the expansion, made separately, of the patterns that a
  zip-shaped entry supplies. For \<^verbatim>\<open>files: ["a/*.txt", {zip: ["b/*.py"]}]\<close> in the
  directory \<^verbatim>\<open>hw\<close> holding \<^verbatim>\<open>a/1.txt\<close>, \<^verbatim>\<open>a/2.txt\<close> and \<^verbatim>\<open>b/x.py\<close>, the lists are
  those files, each path written from the base directory on.
\<close>

theorem C4_file_list_resolution:
  assumes "os_path_isdir E w (path self)"
    and "os_path_isfile E w (os_path_join (path self) (include_file self))"
    and "yaml_load E w (os_path_join (path self) (include_file self)) = config"
    and "validate_config config = Inr ()"
    and "py_getitem config FILES = Inr (PList entries)"
    and "list_all valid_entry entries"
    and "last (PList [] # zip_groups entries) = PList zs"
    and "list_all is_str zs"
  shows "read E self (w, tr) =
    (Inr (config,
          expand E w (path self) (direct_patterns entries),
          expand E w (path self) (direct_patterns zs)),
     (w, tr @ [LoadYaml (os_path_join (path self) (include_file self))]))"
proof -
  have loop: "file_list_loop E w (path self) entries (PList []) [] =
      Inr (PList zs, expand E w (path self) (direct_patterns entries))"
    using file_list_loop_valid [OF assms(6), of E w "path self" "PList []" "[]"] assms(7)
    by simp
  have zip: "zip_list_loop E w (path self) zs [] = Inr (expand E w (path self) (direct_patterns zs))"
    using zip_list_loop_valid [OF assms(8), of E w "path self" "[]"] by simp
  have "get_file_list E w (path self) config =
      Inr (expand E w (path self) (direct_patterns entries),
           expand E w (path self) (direct_patterns zs))"
    by (simp add: get_file_list_list [OF assms(5)] loop zip)
  then show ?thesis
    by (simp add: read_loaded [OF assms(1,2)] assms(3,4))
qed

theorem C4_file_list_resolution_witness:
  "read (example_env (example_config spec_example_files) []) example_reader (0, []) =
     (Inr (example_config spec_example_files,
           [''hw/a/1.txt'', ''hw/a/2.txt''], [''hw/b/x.py'']),
      (0, [LoadYaml ''hw/.canvas-include.yml'']))"
proof -
  let ?c = "example_config spec_example_files"
  let ?E = "example_env ?c []"
  let ?entries = "[PStr ''a/*.txt'', PDict [(PStr ''zip'', PList [PStr ''b/*.py''])]]"
  have j: "os_path_join (path example_reader) (include_file example_reader) = ''hw/.canvas-include.yml''"
    by (simp add: example_reader_def os_path_join_def)
  have h1: "os_path_isdir ?E 0 (path example_reader)"
    by (simp add: example_env_def example_reader_def)
  have h2: "os_path_isfile ?E 0 (os_path_join (path example_reader) (include_file example_reader))"
    by (simp add: j) (simp add: example_env_def example_files_def)
  have h3: "yaml_load ?E 0 (os_path_join (path example_reader) (include_file example_reader)) = ?c"
    by (simp add: example_env_def)
  have h4: "validate_config ?c = Inr ()"
    by (simp add: example_config_def key_defs)
  have h5: "py_getitem ?c FILES = Inr (PList ?entries)"
    by (simp add: example_config_def spec_example_files_def key_defs)
  have h6: "list_all valid_entry ?entries"
    by (simp add: valid_entry_def)
  have h7: "last (PList [] # zip_groups ?entries) = PList [PStr ''b/*.py'']"
    by simp
  have h8: "list_all is_str [PStr ''b/*.py'']"
    by simp
  have e1: "expand ?E 0 (path example_reader) (direct_patterns ?entries) = [''hw/a/1.txt'', ''hw/a/2.txt'']"
    by (simp add: expand_def example_env_def example_reader_def os_path_join_def)
  have e2: "expand ?E 0 (path example_reader) (direct_patterns [PStr ''b/*.py'']) = [''hw/b/x.py'']"
    by (simp add: expand_def example_env_def example_reader_def os_path_join_def)
  from C4_file_list_resolution [OF h1 h2 h3 h4 h5 h6 h7 h8, of "[]"]
  show ?thesis by (simp only: e1 e2 j append_Nil)
qed

text \<open>
  C8: a dict entry holding the key \<^verbatim>\<open>"zip"\<close> is taken as a zip group whatever other
  keys it holds: the loop goes on with the value under \<^verbatim>\<open>"zip"\<close> as the zip patterns
  and raises nothing, and the file lists are those of the configuration in which the
  entry is the single-key mapping \<^verbatim>\<open>{zip: z}\<close>.
\<close>

theorem C8_zip_entry_extra_keys:
  assumes "map_of kvs (PStr ''zip'') = Some z"
    and "py_getitem config FILES = Inr (PList (pre @ PDict kvs # post))"
    and "py_getitem config' FILES = Inr (PList (pre @ PDict [(PStr ''zip'', z)] # post))"
  shows "file_list_loop E w p (PDict kvs # post) g fl = file_list_loop E w p post z fl \<and>
         get_file_list E w p config = get_file_list E w p config'"
proof -
  have a: "file_list_loop E w p (PDict kvs # post) g' fl' = file_list_loop E w p post z fl'" for g' fl'
    using assms(1) by simp
  have b: "file_list_loop E w p (PDict [(PStr ''zip'', z)] # post) g' fl' = file_list_loop E w p post z fl'" for g' fl'
    by simp
  have "file_list_loop E w p (pre @ PDict kvs # post) (PList []) [] =
        file_list_loop E w p (pre @ PDict [(PStr ''zip'', z)] # post) (PList []) []"
    by (simp only: file_list_loop_append a b)
  then have "get_file_list E w p config = get_file_list E w p config'"
    by (simp only: get_file_list_list [OF assms(2)] get_file_list_list [OF assms(3)])
  with a show ?thesis by simp
qed

theorem C8_zip_entry_extra_keys_witness:
  "map_of labelled_zip (PStr ''zip'') = Some (PList [PStr ''b/*.py'']) \<and>
   length labelled_zip = 3 \<and>
   get_file_list (example_env PNone []) 0 ''hw''
       (example_config (PList [PStr ''a/*.txt'', PDict labelled_zip])) =
     get_file_list (example_env PNone []) 0 ''hw'' (example_config spec_example_files) \<and>
   get_file_list (example_env PNone []) 0 ''hw''
       (example_config (PList [PStr ''a/*.txt'', PDict labelled_zip])) =
     Inr ([''hw/a/1.txt'', ''hw/a/2.txt''], [''hw/b/x.py''])"
proof -
  let ?z = "PList [PStr ''b/*.py'']"
  have h1: "map_of labelled_zip (PStr ''zip'') = Some ?z"
    by (simp add: labelled_zip_def)
  have h2: "py_getitem (example_config (PList [PStr ''a/*.txt'', PDict labelled_zip])) FILES =
      Inr (PList ([PStr ''a/*.txt''] @ PDict labelled_zip # []))"
    by (simp add: example_config_def key_defs)
  have h3: "py_getitem (example_config spec_example_files) FILES =
      Inr (PList ([PStr ''a/*.txt''] @ PDict [(PStr ''zip'', ?z)] # []))"
    by (simp add: example_config_def spec_example_files_def key_defs)
  have v: "get_file_list (example_env PNone []) 0 ''hw'' (example_config spec_example_files) =
     Inr ([''hw/a/1.txt'', ''hw/a/2.txt''], [''hw/b/x.py''])"
    by (simp add: get_file_list_def example_config_def spec_example_files_def key_defs
          example_env_def os_path_join_def)
  have l: "length labelled_zip = 3" by (simp add: labelled_zip_def)
  from C8_zip_entry_extra_keys [OF h1 h2 h3, of "example_env PNone []" 0 "''hw''" PNone "[]"]
  have "get_file_list (example_env PNone []) 0 ''hw''
       (example_config (PList [PStr ''a/*.txt'', PDict labelled_zip])) =
     get_file_list (example_env PNone []) 0 ''hw'' (example_config spec_example_files)"
    by blast
  with h1 l v show ?thesis by simp
qed

section \<open>Zip groups and invalid entries\<close>

lemma file_list_loop_closed:
  "file_list_loop E w p xs g fl =
     (if list_all valid_entry xs
      then Inr (last (g # zip_groups xs), fl @ expand E w p (direct_patterns xs))
      else Inl (ValueError UnexpectedTypeInFileList))"
  by (simp add: file_list_loop_valid file_list_loop_invalid)

lemma zip_list_loop_closed:
  "zip_list_loop E w p zs zl =
     (if list_all is_str zs then Inr (zl @ expand E w p (direct_patterns zs))
      else Inl (ValueError UnexpectedTypeInZipFileList))"
  by (simp add: zip_list_loop_valid zip_list_loop_invalid)

lemma zip_groups_zip_entry: "is_zip_entry e \<Longrightarrow> zip_groups (e # xs) \<noteq> []"
  by (cases e) (auto split: option.splits)

lemma zip_groups_append: "zip_groups (xs @ ys) = zip_groups xs @ zip_groups ys"
  by (induction xs rule: zip_groups.induct) (auto split: option.splits)

lemma file_list_loop_reset:
  assumes "is_zip_entry e"
  shows "file_list_loop E w p (xs @ e # post) g fl = file_list_loop E w p (xs @ e # post) g' fl"
proof -
  have "zip_groups (xs @ e # post) \<noteq> []"
    using zip_groups_zip_entry [OF assms] by (simp add: zip_groups_append)
  then show ?thesis
    by (simp add: file_list_loop_closed)
qed

lemma example_checks:
  "os_path_isdir (example_env c fs) 0 ''hw''"
  "os_path_isfile (example_env c fs) 0 (os_path_join ''hw'' ''.canvas-include.yml'')"
  "yaml_load (example_env c fs) 0 (os_path_join ''hw'' ''.canvas-include.yml'') = c"
  "validate_config (example_config f) = Inr ()"
  "py_getitem (example_config f) FILES = Inr f"
  by (simp_all add: example_env_def example_files_def os_path_join_def example_config_def key_defs)

text \<open>
  C6: when the file list holds two zip-shaped entries, the earlier one can be taken out
  of the list without changing what \<^verbatim>\<open>_get_file_list\<close> returns or raises; and when
  the entries are valid and the value under \<^verbatim>\<open>"zip"\<close> of the last zip-shaped entry
  iterates to strings, the zip list returned is the expansion of exactly those
  patterns. Nothing is asked of the earlier zip groups: they are never looked at.
\<close>

theorem C6_last_zip_entry_wins:
  assumes "is_zip_entry e1" and "is_zip_entry e2"
    and "py_getitem config FILES = Inr (PList (pre @ e1 # mid @ e2 # post))"
    and "py_getitem config' FILES = Inr (PList (pre @ mid @ e2 # post))"
  shows "get_file_list E w p config = get_file_list E w p config' \<and>
    (list_all valid_entry (pre @ e1 # mid @ e2 # post) \<and>
     py_iter (last (zip_groups (pre @ e1 # mid @ e2 # post))) = Inr zs \<and>
     list_all is_str zs \<longrightarrow>
       get_file_list E w p config =
         Inr (expand E w p (direct_patterns (pre @ e1 # mid @ e2 # post)),
              expand E w p (direct_patterns zs)))"
proof -
  obtain kvs z where e1: "e1 = PDict kvs" "map_of kvs (PStr ''zip'') = Some z"
    using assms(1) by (cases e1) auto
  have step: "file_list_loop E w p (e1 # mid @ e2 # post) g fl =
              file_list_loop E w p (mid @ e2 # post) g fl" for g fl
    using e1 file_list_loop_reset [OF assms(2), of E w p mid post z fl g] by simp
  have "file_list_loop E w p (pre @ e1 # mid @ e2 # post) (PList []) [] =
        file_list_loop E w p (pre @ mid @ e2 # post) (PList []) []"
    by (simp only: file_list_loop_append step)
  then have a: "get_file_list E w p config = get_file_list E w p config'"
    by (simp only: get_file_list_list [OF assms(3)] get_file_list_list [OF assms(4)])
  have b: "get_file_list E w p config =
         Inr (expand E w p (direct_patterns (pre @ e1 # mid @ e2 # post)),
              expand E w p (direct_patterns zs))"
    if v: "list_all valid_entry (pre @ e1 # mid @ e2 # post)"
      and i: "py_iter (last (zip_groups (pre @ e1 # mid @ e2 # post))) = Inr zs"
      and s: "list_all is_str zs"
  proof -
    have ne: "zip_groups (pre @ e1 # mid @ e2 # post) \<noteq> []"
      using zip_groups_zip_entry [OF assms(1)] by (simp add: zip_groups_append)
    have "file_list_loop E w p (pre @ e1 # mid @ e2 # post) (PList []) [] =
       Inr (last (zip_groups (pre @ e1 # mid @ e2 # post)),
            expand E w p (direct_patterns (pre @ e1 # mid @ e2 # post)))"
      using file_list_loop_valid [OF v, of E w p "PList []" "[]"] ne by simp
    then show ?thesis
      by (simp add: get_file_list_list [OF assms(3)] i zip_list_loop_valid [OF s])
  qed
  from a b show ?thesis by blast
qed

theorem C6_last_zip_entry_wins_witness:
  "is_zip_entry (PDict [(PStr ''zip'', PList [PInt 1])]) \<and>
   is_zip_entry (PDict [(PStr ''zip'', PList [PStr ''b/*.py''])]) \<and>
   get_file_list (example_env PNone []) 0 ''hw'' (example_config overridden_zip_files) =
     get_file_list (example_env PNone []) 0 ''hw'' (example_config spec_example_files) \<and>
   get_file_list (example_env PNone []) 0 ''hw'' (example_config overridden_zip_files) =
     Inr ([''hw/a/1.txt'', ''hw/a/2.txt''], [''hw/b/x.py''])"
proof -
  let ?e1 = "PDict [(PStr ''zip'', PList [PInt 1])]"
  let ?e2 = "PDict [(PStr ''zip'', PList [PStr ''b/*.py''])]"
  let ?E = "example_env PNone []"
  have z1: "is_zip_entry ?e1" by simp
  have z2: "is_zip_entry ?e2" by simp
  have f1: "py_getitem (example_config overridden_zip_files) FILES =
      Inr (PList ([] @ ?e1 # [PStr ''a/*.txt''] @ ?e2 # []))"
    by (simp add: example_config_def overridden_zip_files_def key_defs)
  have f2: "py_getitem (example_config spec_example_files) FILES =
      Inr (PList ([] @ [PStr ''a/*.txt''] @ ?e2 # []))"
    by (simp add: example_config_def spec_example_files_def key_defs)
  note t = C6_last_zip_entry_wins [OF z1 z2 f1 f2, of ?E 0 "''hw''" "[PStr ''b/*.py'']"]
  have v: "list_all valid_entry ([] @ ?e1 # [PStr ''a/*.txt''] @ ?e2 # [])"
    by (simp add: valid_entry_def)
  have i: "py_iter (last (zip_groups ([] @ ?e1 # [PStr ''a/*.txt''] @ ?e2 # []))) =
      Inr [PStr ''b/*.py'']"
    by simp
  have s: "list_all is_str [PStr ''b/*.py'']" by simp
  have e1: "expand ?E 0 ''hw'' (direct_patterns ([] @ ?e1 # [PStr ''a/*.txt''] @ ?e2 # [])) =
      [''hw/a/1.txt'', ''hw/a/2.txt'']"
    by (simp add: expand_def example_env_def os_path_join_def)
  have e2: "expand ?E 0 ''hw'' (direct_patterns [PStr ''b/*.py'']) = [''hw/b/x.py'']"
    by (simp add: expand_def example_env_def os_path_join_def)
  from t have a: "get_file_list ?E 0 ''hw'' (example_config overridden_zip_files) =
     get_file_list ?E 0 ''hw'' (example_config spec_example_files)" by blast
  from t v i s have "get_file_list ?E 0 ''hw'' (example_config overridden_zip_files) =
      Inr (expand ?E 0 ''hw'' (direct_patterns ([] @ ?e1 # [PStr ''a/*.txt''] @ ?e2 # [])),
           expand ?E 0 ''hw'' (direct_patterns [PStr ''b/*.py'']))" by blast
  then have b: "get_file_list ?E 0 ''hw'' (example_config overridden_zip_files) =
     Inr ([''hw/a/1.txt'', ''hw/a/2.txt''], [''hw/b/x.py''])"
    by (simp only: e1 e2)
  from z1 z2 a b show ?thesis by blast
qed

text \<open>
  C5 (as amended): with the include file read and the five keys present, a file list
  that holds an entry that is neither a string nor a dict with the key \<^verbatim>\<open>"zip"\<close>
  makes \<^verbatim>\<open>read\<close>, and so the constructor of \<^verbatim>\<open>CanvasAssignment\<close>, raise the
  \<^verbatim>\<open>ValueError\<close> of the file list; a file list of valid entries whose zip patterns in
  effect (those of the last zip-shaped entry) hold a non-string raises the
  \<^verbatim>\<open>ValueError\<close> of the zip file list. In both cases the trace has grown by the
  parsing of the include file only: no call of the Canvas client has been made.
\<close>

theorem C5_invalid_entries:
  assumes "os_path_isdir E w p"
    and "os_path_isfile E w (os_path_join p inc)"
    and "yaml_load E w (os_path_join p inc) = config"
    and "validate_config config = Inr ()"
    and "py_getitem config FILES = Inr (PList entries)"
    and "\<not> list_all valid_entry entries \<or>
         (last (PList [] # zip_groups entries) = PList zs \<and> \<not> list_all is_str zs)"
  shows "read E \<lparr>path = p, include_file = inc\<rparr> (w, tr) =
      (Inl (ValueError (if \<not> list_all valid_entry entries then UnexpectedTypeInFileList
                        else UnexpectedTypeInZipFileList)),
       (w, tr @ [LoadYaml (os_path_join p inc)])) \<and>
    canvas_assignment_init E p inc (w, tr) =
      (Inl (ValueError (if \<not> list_all valid_entry entries then UnexpectedTypeInFileList
                        else UnexpectedTypeInZipFileList)),
       (w, tr @ [LoadYaml (os_path_join p inc)])) \<and>
    filter is_network (snd (snd (canvas_assignment_init E p inc (w, tr)))) = filter is_network tr"
proof -
  have g: "get_file_list E w p config =
      Inl (ValueError (if \<not> list_all valid_entry entries then UnexpectedTypeInFileList
                        else UnexpectedTypeInZipFileList))"
  proof (cases "list_all valid_entry entries")
    case False
    then show ?thesis
      by (simp add: get_file_list_list [OF assms(5)] file_list_loop_invalid)
  next
    case True
    with assms(6) have z: "last (PList [] # zip_groups entries) = PList zs" "\<not> list_all is_str zs"
      by auto
    have "file_list_loop E w p entries (PList []) [] =
        Inr (PList zs, expand E w p (direct_patterns entries))"
      using file_list_loop_valid [OF True, of E w p "PList []" "[]"] z(1) by simp
    with True z(2) show ?thesis
      by (simp add: get_file_list_list [OF assms(5)] zip_list_loop_invalid)
  qed
  have r: "read E \<lparr>path = p, include_file = inc\<rparr> (w, tr) =
      (Inl (ValueError (if \<not> list_all valid_entry entries then UnexpectedTypeInFileList
                        else UnexpectedTypeInZipFileList)),
       (w, tr @ [LoadYaml (os_path_join p inc)]))"
    using read_loaded [of E w "\<lparr>path = p, include_file = inc\<rparr>" tr] assms(1-4) g
    by simp
  then have c: "canvas_assignment_init E p inc (w, tr) =
      (Inl (ValueError (if \<not> list_all valid_entry entries then UnexpectedTypeInFileList
                        else UnexpectedTypeInZipFileList)),
       (w, tr @ [LoadYaml (os_path_join p inc)]))"
    by (simp add: canvas_assignment_init_def)
  from r c show ?thesis by simp
qed

theorem C5_invalid_entries_witness:
  "canvas_assignment_init (example_env (example_config bad_direct_files) [])
       ''hw'' ''.canvas-include.yml'' (0, []) =
     (Inl (ValueError UnexpectedTypeInFileList), (0, [LoadYaml ''hw/.canvas-include.yml''])) \<and>
   canvas_assignment_init (example_env (example_config bad_zip_files) [])
       ''hw'' ''.canvas-include.yml'' (0, []) =
     (Inl (ValueError UnexpectedTypeInZipFileList), (0, [LoadYaml ''hw/.canvas-include.yml'']))"
proof -
  let ?d = "[PStr ''a/*.txt'', PInt 3]"
  let ?z = "[PStr ''a/*.txt'', PDict [(PStr ''zip'', PList [PStr ''b/*.py'', PInt 1])]]"
  have j: "os_path_join ''hw'' ''.canvas-include.yml'' = ''hw/.canvas-include.yml''"
    by (simp add: os_path_join_def)
  have d: "\<not> list_all valid_entry ?d \<or>
      (last (PList [] # zip_groups ?d) = PList [] \<and> \<not> list_all is_str [])"
    by (simp add: valid_entry_def)
  have dn: "\<not> list_all valid_entry ?d" by (simp add: valid_entry_def)
  have z: "\<not> list_all valid_entry ?z \<or>
      (last (PList [] # zip_groups ?z) = PList [PStr ''b/*.py'', PInt 1] \<and>
       \<not> list_all is_str [PStr ''b/*.py'', PInt 1])"
    by (simp add: valid_entry_def)
  have zv: "list_all valid_entry ?z" by (simp add: valid_entry_def)
  have fd: "py_getitem (example_config bad_direct_files) FILES = Inr (PList ?d)"
    by (simp add: example_checks(5) bad_direct_files_def)
  have fz: "py_getitem (example_config bad_zip_files) FILES = Inr (PList ?z)"
    by (simp add: example_checks(5) bad_zip_files_def)
  from C5_invalid_entries [OF example_checks(1,2,3,4) fd d, of "[]" "[]"]
  have a: "canvas_assignment_init (example_env (example_config bad_direct_files) [])
       ''hw'' ''.canvas-include.yml'' (0, []) =
     (Inl (ValueError UnexpectedTypeInFileList), (0, [LoadYaml ''hw/.canvas-include.yml'']))"
    by (simp only: dn j if_True append_Nil simp_thms)
  from C5_invalid_entries [OF example_checks(1,2,3,4) fz z, of "[]" "[]"]
  have b: "canvas_assignment_init (example_env (example_config bad_zip_files) [])
       ''hw'' ''.canvas-include.yml'' (0, []) =
     (Inl (ValueError UnexpectedTypeInZipFileList), (0, [LoadYaml ''hw/.canvas-include.yml'']))"
    by (simp only: zv j if_False append_Nil simp_thms not_True_eq_False)
  from a b show ?thesis by blast
qed

text \<open>
  The claim C5 as stated fails: here the first zip group holds the integer 1, a later
  zip group replaces it, and \<^verbatim>\<open>read\<close> returns both lists.
\<close>

theorem C5_counterexample:
  "\<not> list_all is_str [PInt 1] \<and>
   read (example_env (example_config overridden_zip_files) []) example_reader (0, []) =
     (Inr (example_config overridden_zip_files,
           [''hw/a/1.txt'', ''hw/a/2.txt''], [''hw/b/x.py'']),
      (0, [LoadYaml ''hw/.canvas-include.yml'']))"
  by (simp add: read_def get_file_list_def ex_defs key_defs overridden_zip_files_def
        os_path_join_def Let_def)

section \<open>Patterns without a match\<close>

lemma direct_patterns_append: "direct_patterns (xs @ ys) = direct_patterns xs @ direct_patterns ys"
  by (induction xs rule: direct_patterns.induct) auto

lemma expand_append: "expand E w p (xs @ ys) = expand E w p xs @ expand E w p ys"
  by (simp add: expand_def)

lemma expand_no_match:
  "glob_glob E w (os_path_join p s) = [] \<Longrightarrow>
   expand E w p (direct_patterns (xs @ PStr s # ys)) = expand E w p (direct_patterns (xs @ ys))"
  by (simp add: direct_patterns_append expand_append) (simp add: expand_def)

lemma get_file_list_closed:
  assumes "py_getitem config FILES = Inr (PList entries)"
  shows "get_file_list E w p config =
     (if \<not> list_all valid_entry entries then Inl (ValueError UnexpectedTypeInFileList)
      else (case py_iter (last (PList [] # zip_groups entries)) of
              Inl e \<Rightarrow> Inl e
            | Inr zs \<Rightarrow>
                if list_all is_str zs
                then Inr (expand E w p (direct_patterns entries), expand E w p (direct_patterns zs))
                else Inl (ValueError UnexpectedTypeInZipFileList)))"
  by (simp add: get_file_list_list [OF assms] file_list_loop_closed zip_list_loop_closed
        split: sum.splits)

text \<open>
  C9: a pattern that matches no file is not an error and adds nothing: with such a
  pattern among the direct entries, or among the patterns of a zip group,
  \<^verbatim>\<open>_get_file_list\<close> returns (or raises) exactly what it does for the file list without
  that pattern. And when the direct list is empty, \<^verbatim>\<open>submit\<close> uploads nothing, looks
  the assignment up and issues the submission call with \<^verbatim>\<open>file_ids\<close> the empty list,
  returning what that call returns.
\<close>

theorem C9_empty_matches:
  "(glob_glob E w (os_path_join p s) = [] \<and>
    py_getitem c FILES = Inr (PList (pre @ PStr s # post)) \<and>
    py_getitem c' FILES = Inr (PList (pre @ post)) \<longrightarrow>
      get_file_list E w p c = get_file_list E w p c') \<and>
   (glob_glob E w (os_path_join p s) = [] \<and>
    py_getitem d FILES =
      Inr (PList (pre @ PDict [(PStr ''zip'', PList (zpre @ PStr s # zpost))] # post)) \<and>
    py_getitem d' FILES =
      Inr (PList (pre @ PDict [(PStr ''zip'', PList (zpre @ zpost))] # post)) \<longrightarrow>
      get_file_list E w p d = get_file_list E w p d') \<and>
   (file_list self = [] \<longrightarrow>
      submit E self (w, tr) =
        (Inr (fst (assignment_submit E
                (course_get_assignment E (canvas_get_course E w (canvas self) (course_id self))
                   (course_id self) (assignment_id self))
                (course_id self, assignment_id self) (online_upload []))),
         (snd (assignment_submit E
                (course_get_assignment E (canvas_get_course E w (canvas self) (course_id self))
                   (course_id self) (assignment_id self))
                (course_id self, assignment_id self) (online_upload [])),
          tr @ [GetCourse (course_id self), GetAssignment (course_id self) (assignment_id self),
                SubmitCall (course_id self) (assignment_id self) (online_upload [])])))"
proof -
  have a: "get_file_list E w p c = get_file_list E w p c'"
    if g: "glob_glob E w (os_path_join p s) = []"
      and f: "py_getitem c FILES = Inr (PList (pre @ PStr s # post))"
      and f': "py_getitem c' FILES = Inr (PList (pre @ post))"
  proof -
    have v: "list_all valid_entry (pre @ PStr s # post) = list_all valid_entry (pre @ post)"
      by (simp add: valid_entry_def)
    have z: "zip_groups (pre @ PStr s # post) = zip_groups (pre @ post)"
      by (simp add: zip_groups_append)
    show ?thesis
      by (simp only: get_file_list_closed [OF f] get_file_list_closed [OF f'] v z
            expand_no_match [OF g])
  qed
  have b: "get_file_list E w p d = get_file_list E w p d'"
    if g: "glob_glob E w (os_path_join p s) = []"
      and f: "py_getitem d FILES =
        Inr (PList (pre @ PDict [(PStr ''zip'', PList (zpre @ PStr s # zpost))] # post))"
      and f': "py_getitem d' FILES =
        Inr (PList (pre @ PDict [(PStr ''zip'', PList (zpre @ zpost))] # post))"
  proof -
    let ?e = "PDict [(PStr ''zip'', PList (zpre @ PStr s # zpost))]"
    let ?e' = "PDict [(PStr ''zip'', PList (zpre @ zpost))]"
    have v: "list_all valid_entry (pre @ ?e # post) = list_all valid_entry (pre @ ?e' # post)"
      by (simp add: valid_entry_def)
    have dp: "direct_patterns (pre @ ?e # post) = direct_patterns (pre @ ?e' # post)"
      by (simp add: direct_patterns_append)
    have s: "list_all is_str (zpre @ PStr s # zpost) = list_all is_str (zpre @ zpost)"
      by simp
    show ?thesis
    proof (cases "zip_groups post = []")
      case True
      then have l1: "last (PList [] # zip_groups (pre @ ?e # post)) = PList (zpre @ PStr s # zpost)"
        and l2: "last (PList [] # zip_groups (pre @ ?e' # post)) = PList (zpre @ zpost)"
        by (simp_all add: zip_groups_append)
      show ?thesis
        by (simp only: get_file_list_closed [OF f] get_file_list_closed [OF f'] v dp l1 l2
              py_iter.simps sum.case s expand_no_match [OF g])
    next
      case False
      then have l: "last (PList [] # zip_groups (pre @ ?e # post)) =
                 last (PList [] # zip_groups (pre @ ?e' # post))"
        by (simp add: zip_groups_append)
      show ?thesis
        by (simp only: get_file_list_closed [OF f] get_file_list_closed [OF f'] v dp l)
    qed
  qed
  have c: "submit E self (w, tr) =
        (Inr (fst (assignment_submit E
                (course_get_assignment E (canvas_get_course E w (canvas self) (course_id self))
                   (course_id self) (assignment_id self))
                (course_id self, assignment_id self) (online_upload []))),
         (snd (assignment_submit E
                (course_get_assignment E (canvas_get_course E w (canvas self) (course_id self))
                   (course_id self) (assignment_id self))
                (course_id self, assignment_id self) (online_upload [])),
          tr @ [GetCourse (course_id self), GetAssignment (course_id self) (assignment_id self),
                SubmitCall (course_id self) (assignment_id self) (online_upload [])]))"
    if "file_list self = []"
    using that
    by (simp add: submit_def get_assignment_def online_upload_def Let_def split: prod.splits)
  from a b c show ?thesis by blast
qed

theorem C9_empty_matches_witness:
  "glob_glob (example_env PNone []) 0 (os_path_join ''hw'' ''c/*.md'') = [] \<and>
   get_file_list (example_env PNone []) 0 ''hw'' (example_config unmatched_direct_files) =
     Inr ([''hw/a/1.txt'', ''hw/a/2.txt''], []) \<and>
   get_file_list (example_env PNone []) 0 ''hw'' (example_config unmatched_zip_files) =
     Inr ([''hw/a/1.txt'', ''hw/a/2.txt''], [''hw/b/x.py'']) \<and>
   submit (example_env PNone []) (example_assignment []) (0, []) =
     (Inr (PDict [(PStr ''workflow_state'', PStr ''submitted'')]),
      (0, [GetCourse (PInt 42), GetAssignment (PInt 42) (PInt 7),
           SubmitCall (PInt 42) (PInt 7) (online_upload [])]))"
proof -
  let ?E = "example_env PNone []"
  have g: "glob_glob ?E 0 (os_path_join ''hw'' ''c/*.md'') = []"
    by (simp add: example_env_def os_path_join_def)
  have f1: "py_getitem (example_config unmatched_direct_files) FILES =
      Inr (PList ([PStr ''a/*.txt''] @ PStr ''c/*.md'' # []))"
    by (simp add: example_checks(5) unmatched_direct_files_def)
  have f1': "py_getitem (example_config (PList [PStr ''a/*.txt''])) FILES =
      Inr (PList ([PStr ''a/*.txt''] @ []))"
    by (simp add: example_checks(5))
  have f2: "py_getitem (example_config unmatched_zip_files) FILES =
      Inr (PList ([PStr ''a/*.txt''] @
             PDict [(PStr ''zip'', PList ([] @ PStr ''c/*.md'' # [PStr ''b/*.py'']))] # []))"
    by (simp add: example_checks(5) unmatched_zip_files_def)
  have f2': "py_getitem (example_config spec_example_files) FILES =
      Inr (PList ([PStr ''a/*.txt''] @ PDict [(PStr ''zip'', PList ([] @ [PStr ''b/*.py'']))] # []))"
    by (simp add: example_checks(5) spec_example_files_def)
  have fl: "file_list (example_assignment []) = []"
    by (simp add: example_assignment_def)
  note t = C9_empty_matches [where E = ?E and w = 0 and p = "''hw''" and s = "''c/*.md''"
      and c = "example_config unmatched_direct_files"
      and c' = "example_config (PList [PStr ''a/*.txt''])"
      and pre = "[PStr ''a/*.txt'']" and post = "[]"
      and d = "example_config unmatched_zip_files" and d' = "example_config spec_example_files"
      and zpre = "[]" and zpost = "[PStr ''b/*.py'']"
      and self = "example_assignment []" and tr = "[]"]
  from t g f1 f1' have "get_file_list ?E 0 ''hw'' (example_config unmatched_direct_files) =
      get_file_list ?E 0 ''hw'' (example_config (PList [PStr ''a/*.txt'']))"
    by blast
  moreover have "get_file_list ?E 0 ''hw'' (example_config (PList [PStr ''a/*.txt''])) =
      Inr ([''hw/a/1.txt'', ''hw/a/2.txt''], [])"
    by (simp add: get_file_list_def example_config_def key_defs example_env_def os_path_join_def)
  ultimately have a: "get_file_list ?E 0 ''hw'' (example_config unmatched_direct_files) =
     Inr ([''hw/a/1.txt'', ''hw/a/2.txt''], [])"
    by simp
  from t g f2 f2' have "get_file_list ?E 0 ''hw'' (example_config unmatched_zip_files) =
      get_file_list ?E 0 ''hw'' (example_config spec_example_files)"
    by blast
  moreover have "get_file_list ?E 0 ''hw'' (example_config spec_example_files) =
      Inr ([''hw/a/1.txt'', ''hw/a/2.txt''], [''hw/b/x.py''])"
    by (simp add: get_file_list_def example_config_def spec_example_files_def key_defs
          example_env_def os_path_join_def)
  ultimately have b: "get_file_list ?E 0 ''hw'' (example_config unmatched_zip_files) =
     Inr ([''hw/a/1.txt'', ''hw/a/2.txt''], [''hw/b/x.py''])"
    by simp
  from t fl have "submit ?E (example_assignment []) (0, []) =
        (Inr (fst (assignment_submit ?E
                (course_get_assignment ?E
                   (canvas_get_course ?E 0 (canvas (example_assignment []))
                      (course_id (example_assignment [])))
                   (course_id (example_assignment [])) (assignment_id (example_assignment [])))
                (course_id (example_assignment []), assignment_id (example_assignment []))
                (online_upload []))),
         (snd (assignment_submit ?E
                (course_get_assignment ?E
                   (canvas_get_course ?E 0 (canvas (example_assignment []))
                      (course_id (example_assignment [])))
                   (course_id (example_assignment [])) (assignment_id (example_assignment [])))
                (course_id (example_assignment []), assignment_id (example_assignment []))
                (online_upload [])),
          [] @ [GetCourse (course_id (example_assignment [])),
                GetAssignment (course_id (example_assignment []))
                  (assignment_id (example_assignment [])),
                SubmitCall (course_id (example_assignment []))
                  (assignment_id (example_assignment [])) (online_upload [])]))"
    by blast
  then have c: "submit ?E (example_assignment []) (0, []) =
     (Inr (PDict [(PStr ''workflow_state'', PStr ''submitted'')]),
      (0, [GetCourse (PInt 42), GetAssignment (PInt 42) (PInt 7),
           SubmitCall (PInt 42) (PInt 7) (online_upload [])]))"
    by (simp add: example_env_def example_assignment_def)
  from g a b c show ?thesis by blast
qed

section \<open>Submission\<close>

lemma upload_file_cases:
  "upload_file_to_assignment E req c a u p (w, tr) = (r, st1) \<Longrightarrow>
     (\<not> os_path_isfile E w p \<and> r = Inl (ValueError MustBeFile) \<and> st1 = (w, tr)) \<or>
     (os_path_isfile E w p \<and>
      (\<exists>ok resp w1 m. r = Inr (ok, resp) \<and>
         st1 = (w1, tr @ m) \<and> uploads m = [(p, ok, resp)] \<and> submissions m = []))"
  by (auto simp: upload_file_to_assignment_def Let_def split: prod.splits if_splits)

lemma upload_loop_run:
  "upload_loop E self ps ids (w, tr) = (r, (w', tr')) \<Longrightarrow>
   \<exists>new. tr' = tr @ new \<and> submissions new = [] \<and>
     (case r of
        Inr ids' \<Rightarrow>
          map up_path (uploads new) = ps \<and> list_all good (uploads new) \<and>
          map Inr ids' = map Inr ids @ map up_id (uploads new)
      | Inl e \<Rightarrow>
          (e = ValueError MustBeFile \<and> length (uploads new) < length ps \<and>
           map up_path (uploads new) = take (length (uploads new)) ps \<and>
           list_all good (uploads new)) \<or>
          (\<exists>ups u. uploads new = ups @ [u] \<and> list_all good ups \<and>
             length ups < length ps \<and>
             map up_path (uploads new) = take (Suc (length ups)) ps \<and>
             (if up_success u then up_id u = Inl e
              else e = IOError (FailedToUpload (up_path u)))))"
proof (induction ps arbitrary: ids w tr)
  case Nil
  then show ?case by auto
next
  case (Cons p rest)
  obtain r1 st1 where up: "upload_file_to_assignment E (requester self) (course_id self)
             (assignment_id self) (user_id self) p (w, tr) = (r1, st1)"
    by (cases "upload_file_to_assignment E (requester self) (course_id self)
             (assignment_id self) (user_id self) p (w, tr)") auto
  from upload_file_cases[OF up] show ?case
  proof
    assume "\<not> os_path_isfile E w p \<and> r1 = Inl (ValueError MustBeFile) \<and> st1 = (w, tr)"
    with Cons.prems up show ?thesis by auto
  next
    assume "os_path_isfile E w p \<and>
      (\<exists>ok resp w1 m. r1 = Inr (ok, resp) \<and>
         st1 = (w1, tr @ m) \<and> uploads m = [(p, ok, resp)] \<and> submissions m = [])"
    then obtain ok resp w1 m where r1: "r1 = Inr (ok, resp)" and st1: "st1 = (w1, tr @ m)"
      and um: "uploads m = [(p, ok, resp)]" and sm: "submissions m = []" by blast
    show ?thesis
    proof (cases ok)
      case False
      with Cons.prems up r1 st1 have "r = Inl (IOError (FailedToUpload p))" "tr' = tr @ m"
        by auto
      with um sm False show ?thesis
        by (auto intro!: exI[of _ m])
    next
      case True
      show ?thesis
      proof (cases "py_getitem resp ''id''")
        case (Inl e)
        with Cons.prems up r1 st1 True have "r = Inl e" "tr' = tr @ m" by auto
        with um sm True Inl show ?thesis
          by (auto intro!: exI[of _ m])
      next
        case (Inr i)
        with Cons.prems up r1 st1 True
        have rec: "upload_loop E self rest (ids @ [i]) (w1, tr @ m) = (r, (w', tr'))" by auto
        from Cons.IH[OF rec] obtain new where
          n1: "tr' = (tr @ m) @ new" and n2: "submissions new = []" and
          n3: "(case r of
        Inr ids' \<Rightarrow>
          map up_path (uploads new) = rest \<and> list_all good (uploads new) \<and>
          map Inr ids' = map Inr (ids @ [i]) @ map up_id (uploads new)
      | Inl e \<Rightarrow>
          (e = ValueError MustBeFile \<and> length (uploads new) < length rest \<and>
           map up_path (uploads new) = take (length (uploads new)) rest \<and>
           list_all good (uploads new)) \<or>
          (\<exists>ups u. uploads new = ups @ [u] \<and> list_all good ups \<and>
             length ups < length rest \<and>
             map up_path (uploads new) = take (Suc (length ups)) rest \<and>
             (if up_success u then up_id u = Inl e
              else e = IOError (FailedToUpload (up_path u)))))" by blast
        have g: "good (p, ok, resp)" using True Inr by (simp add: good_def)
        have u: "uploads (m @ new) = (p, ok, resp) # uploads new"
          by (simp add: uploads_append um)
        have s: "submissions (m @ new) = []" by (simp add: submissions_append sm n2)
        show ?thesis
        proof (cases r)
          case (Inr ids')
          with n1 n3 g u s Inr \<open>py_getitem resp ''id'' = Inr i\<close> show ?thesis
            by (auto intro!: exI[of _ "m @ new"])
        next
          case (Inl e)
          with n3 consider
            (a) "e = ValueError MustBeFile" "length (uploads new) < length rest"
                "map up_path (uploads new) = take (length (uploads new)) rest"
                "list_all good (uploads new)"
          | (b) ups u' where "uploads new = ups @ [u']" "list_all good ups"
                "length ups < length rest"
                "map up_path (uploads new) = take (Suc (length ups)) rest"
                "if up_success u' then up_id u' = Inl e
                 else e = IOError (FailedToUpload (up_path u'))"
            by auto
          then show ?thesis
          proof cases
            case a
            with n1 g u s Inl show ?thesis
              by (auto intro!: exI[of _ "m @ new"])
          next
            case b
            have "uploads (m @ new) = ((p, ok, resp) # ups) @ [u']" using u b(1) by simp
            moreover have "list_all good ((p, ok, resp) # ups)" using g b(2) by simp
            moreover have "map up_path (uploads (m @ new)) = take (Suc (length ((p, ok, resp) # ups))) (p # rest)"
              using u b(4) by simp
            ultimately show ?thesis using n1 s Inl b(3,5)
              apply (intro exI[of _ "m @ new"])
              apply (simp only: sum.case)
              apply (intro conjI)
                apply simp
               apply simp
              apply (rule disjI2)
              apply (rule exI[of _ "(p, ok, resp) # ups"])
              apply (rule exI[of _ u'])
              apply simp
              done
          qed
        qed
      qed
    qed
  qed
qed

lemma submit_cases:
  assumes "submit E self (w, tr) = (res, (w', tr'))"
  obtains (raised) e where "upload_loop E self (file_list self) [] (w, tr) = (Inl e, (w', tr'))"
      and "res = Inl e"
    | (returned) ids w1 tr1 where
        "upload_loop E self (file_list self) [] (w, tr) = (Inr ids, (w1, tr1))"
      and "tr' = tr1 @ [GetCourse (course_id self),
                       GetAssignment (course_id self) (assignment_id self),
                       SubmitCall (course_id self) (assignment_id self) (online_upload ids)]"
      and "\<exists>v. res = Inr v"
proof -
  obtain r w1 tr1 where Pair: "upload_loop E self (file_list self) [] (w, tr) = (r, (w1, tr1))"
    by (cases "upload_loop E self (file_list self) [] (w, tr)") auto
  show ?thesis
  proof (cases r)
    case (Inl e)
    with Pair assms have "res = Inl e" "(w', tr') = (w1, tr1)"
      by (auto simp: submit_def)
    with Pair Inl raised show ?thesis by auto
  next
    case (Inr ids)
    with Pair assms have
      "tr' = tr1 @ [GetCourse (course_id self),
                       GetAssignment (course_id self) (assignment_id self),
                       SubmitCall (course_id self) (assignment_id self) (online_upload ids)]"
      "\<exists>v. res = Inr v"
      by (auto simp: submit_def get_assignment_def online_upload_def Let_def split: prod.splits)
    with Pair Inr returned show ?thesis by auto
  qed
qed

lemmas trace_defs = example_url_def first_upload_trace_def all_ok_trace_def
  second_fails_trace_def

lemmas run_defs = submit_def upload_file_to_assignment_def get_assignment_def
  example_env_def example_assignment_def example_files_def online_upload_def Let_def

text \<open>
  C1 (as amended): take a run of \<^verbatim>\<open>submit\<close> and its trace. If an upload call was made
  for every file of the file list and each reported success and returned a response
  holding an identifier under \<^verbatim>\<open>"id"\<close>, then the
  upload calls were made for the files of the list in their order, exactly one
  submission call was issued, its payload is \<^verbatim>\<open>file_ids\<close> = the identifiers the
  uploads returned, in that order, with \<^verbatim>\<open>submission_type\<close> = \<^verbatim>\<open>"online_upload"\<close>, and
  \<^verbatim>\<open>submit\<close> returns.
\<close>

theorem C1_submit_all_uploads_succeed:
  assumes "submit E self (w, []) = (res, (w', tr))"
    and "length (uploads tr) = length (file_list self)"
    and "list_all good (uploads tr)"
  shows "map up_path (uploads tr) = file_list self \<and>
    (\<exists>ids. map up_id (uploads tr) = map Inr ids \<and> submissions tr = [online_upload ids]) \<and>
    (\<exists>v. res = Inr v)"
  using assms(1)
proof (cases rule: submit_cases)
  case (raised e)
  from upload_loop_run [OF raised(1)] obtain new where
    n: "tr = [] @ new"
    and c: "(e = ValueError MustBeFile \<and> length (uploads new) < length (file_list self) \<and>
           map up_path (uploads new) = take (length (uploads new)) (file_list self) \<and>
           list_all good (uploads new)) \<or>
          (\<exists>ups u. uploads new = ups @ [u] \<and> list_all good ups \<and>
             length ups < length (file_list self) \<and>
             map up_path (uploads new) = take (Suc (length ups)) (file_list self) \<and>
             (if up_success u then up_id u = Inl e
              else e = IOError (FailedToUpload (up_path u))))"
    by auto
  from c show ?thesis
  proof
    assume "e = ValueError MustBeFile \<and> length (uploads new) < length (file_list self) \<and>
           map up_path (uploads new) = take (length (uploads new)) (file_list self) \<and>
           list_all good (uploads new)"
    with n assms(2) show ?thesis by simp
  next
    assume "\<exists>ups u. uploads new = ups @ [u] \<and> list_all good ups \<and>
             length ups < length (file_list self) \<and>
             map up_path (uploads new) = take (Suc (length ups)) (file_list self) \<and>
             (if up_success u then up_id u = Inl e
              else e = IOError (FailedToUpload (up_path u)))"
    then obtain ups u where u: "uploads new = ups @ [u]"
      "if up_success u then up_id u = Inl e else e = IOError (FailedToUpload (up_path u))"
      by blast
    from u(1) n assms(3) have "good u" by simp
    with u(2) show ?thesis by (auto simp: good_def split: if_splits)
  qed
next
  case (returned ids w1 tr1)
  from upload_loop_run [OF returned(1)] obtain new where
    n: "tr1 = [] @ new" and s: "submissions new = []"
    and p: "map up_path (uploads new) = file_list self"
    and i: "map Inr ids = map Inr [] @ map up_id (uploads new)"
    by auto
  from returned(2) n have u: "uploads tr = uploads new"
    by (simp add: uploads_append)
  from returned(2) n s have sub: "submissions tr = [online_upload ids]"
    by (simp add: submissions_append)
  from i u have "map up_id (uploads tr) = map Inr ids" by simp
  with sub p u returned(3) show ?thesis by auto
qed

theorem C1_submit_all_uploads_succeed_witness:
  "submit (example_env PNone []) (example_assignment [''hw/a/1.txt'', ''hw/a/2.txt'']) (0, []) =
     (Inr (PDict [(PStr ''workflow_state'', PStr ''submitted'')]), (2, all_ok_trace)) \<and>
   list_all good (uploads all_ok_trace) \<and>
   map up_path (uploads all_ok_trace) = [''hw/a/1.txt'', ''hw/a/2.txt''] \<and>
   map up_id (uploads all_ok_trace) = [Inr (PInt 500), Inr (PInt 501)] \<and>
   submissions all_ok_trace = [online_upload [PInt 500, PInt 501]]"
proof -
  let ?E = "example_env PNone []"
  let ?self = "example_assignment [''hw/a/1.txt'', ''hw/a/2.txt'']"
  have r: "submit ?E ?self (0, []) =
     (Inr (PDict [(PStr ''workflow_state'', PStr ''submitted'')]), (2, all_ok_trace))"
    by (simp add: run_defs trace_defs)
  have fl: "file_list ?self = [''hw/a/1.txt'', ''hw/a/2.txt'']"
    by (simp add: example_assignment_def)
  have h2: "length (uploads all_ok_trace) = length (file_list ?self)"
    by (simp add: trace_defs fl)
  have h3: "list_all good (uploads all_ok_trace)"
    by (simp add: trace_defs good_def)
  have ids: "map up_id (uploads all_ok_trace) = [Inr (PInt 500), Inr (PInt 501)]"
    by (simp add: trace_defs)
  from C1_submit_all_uploads_succeed [OF r h2 h3]
  obtain ids' where p: "map up_path (uploads all_ok_trace) = file_list ?self"
    and i: "map up_id (uploads all_ok_trace) = map Inr ids'"
    and s: "submissions all_ok_trace = [online_upload ids']"
    by blast
  from i ids have "map Inr ids' = (map Inr [PInt 500, PInt 501] :: (error + pyval) list)"
    by simp
  then have "ids' = [PInt 500, PInt 501]"
    by (simp only: inj_map_eq_map [OF inj_Inr])
  with s have s': "submissions all_ok_trace = [online_upload [PInt 500, PInt 501]]" by simp
  from r h3 p fl ids s' show ?thesis by simp
qed

text \<open>
  The claim C1 as stated, with success alone as its condition, fails: here the only
  upload call is made and reports success, its response holds no \<^verbatim>\<open>"id"\<close>, and
  \<^verbatim>\<open>response["id"]\<close> raises \<^verbatim>\<open>KeyError\<close>; no submission call is made.
\<close>

theorem C1_counterexample:
  "submit no_id_env (example_assignment [''hw/a/1.txt'']) (0, []) =
     (Inl (KeyError ''id''), (1, no_id_trace)) \<and>
   length (uploads no_id_trace) = length (file_list (example_assignment [''hw/a/1.txt''])) \<and>
   list_all up_success (uploads no_id_trace) \<and>
   submissions no_id_trace = []"
  by (simp add: run_defs trace_defs no_id_env_def no_id_trace_def)

text \<open>
  C2: take a run of \<^verbatim>\<open>submit\<close> and its trace. If the K-th upload call of the run
  reported failure, then it is the last upload call of the run, the K calls were made
  for the first K files of the list in their order, each of the calls 1 to K-1 reported
  success and returned an identifier, no submission call was made, and \<^verbatim>\<open>submit\<close>
  raises the \<^verbatim>\<open>IOError\<close> that names the K-th path.
\<close>

theorem C2_submit_upload_fails:
  assumes "submit E self (w, []) = (res, (w', tr))"
    and "0 < K" and "K \<le> length (uploads tr)"
    and "\<not> up_success (uploads tr ! (K - 1))"
  shows "K = length (uploads tr) \<and> K \<le> length (file_list self) \<and>
    map up_path (uploads tr) = take K (file_list self) \<and>
    list_all good (take (K - 1) (uploads tr)) \<and>
    submissions tr = [] \<and>
    res = Inl (IOError (FailedToUpload (file_list self ! (K - 1))))"
  using assms(1)
proof (cases rule: submit_cases)
  case (returned ids w1 tr1)
  from upload_loop_run [OF returned(1)] obtain new where
    n: "tr1 = [] @ new" and g: "list_all good (uploads new)"
    by auto
  from returned(2) n have u: "uploads tr = uploads new"
    by (simp add: uploads_append)
  from g u assms(2,3) have "good (uploads tr ! (K - 1))"
    by (simp add: list_all_length)
  with assms(4) show ?thesis by (simp add: good_def)
next
  case (raised e)
  from upload_loop_run [OF raised(1)] obtain new where
    n: "tr = [] @ new" and s: "submissions new = []"
    and c: "(e = ValueError MustBeFile \<and> length (uploads new) < length (file_list self) \<and>
           map up_path (uploads new) = take (length (uploads new)) (file_list self) \<and>
           list_all good (uploads new)) \<or>
          (\<exists>ups u. uploads new = ups @ [u] \<and> list_all good ups \<and>
             length ups < length (file_list self) \<and>
             map up_path (uploads new) = take (Suc (length ups)) (file_list self) \<and>
             (if up_success u then up_id u = Inl e
              else e = IOError (FailedToUpload (up_path u))))"
    by auto
  from n have tn: "tr = new" by simp
  from c show ?thesis
  proof
    assume "e = ValueError MustBeFile \<and> length (uploads new) < length (file_list self) \<and>
           map up_path (uploads new) = take (length (uploads new)) (file_list self) \<and>
           list_all good (uploads new)"
    with tn assms(2,3) have "good (uploads tr ! (K - 1))"
      by (simp add: list_all_length)
    with assms(4) show ?thesis by (simp add: good_def)
  next
    assume "\<exists>ups u. uploads new = ups @ [u] \<and> list_all good ups \<and>
             length ups < length (file_list self) \<and>
             map up_path (uploads new) = take (Suc (length ups)) (file_list self) \<and>
             (if up_success u then up_id u = Inl e
              else e = IOError (FailedToUpload (up_path u)))"
    then obtain ups u where u: "uploads tr = ups @ [u]" and gu: "list_all good ups"
      and len: "length ups < length (file_list self)"
      and paths: "map up_path (uploads tr) = take (Suc (length ups)) (file_list self)"
      and e: "if up_success u then up_id u = Inl e else e = IOError (FailedToUpload (up_path u))"
      using tn by blast
    have K: "K - 1 = length ups"
    proof (rule ccontr)
      assume "K - 1 \<noteq> length ups"
      with assms(2,3) u have lt: "K - 1 < length ups" by simp
      with gu have "good (ups ! (K - 1))" by (simp add: list_all_length)
      with lt u have "good (uploads tr ! (K - 1))" by (simp add: nth_append)
      with assms(4) show False by (simp add: good_def)
    qed
    with u have uk: "uploads tr ! (K - 1) = u" by simp
    with assms(4) e have ee: "e = IOError (FailedToUpload (up_path u))" by simp
    from K assms(2) have KS: "K = Suc (length ups)" by simp
    have "map up_path (uploads tr) ! length ups = up_path u"
      using u by (simp add: nth_append)
    with paths len have pu: "up_path u = file_list self ! length ups" by simp
    from KS u have k1: "K = length (uploads tr)" by simp
    from KS len have k2: "K \<le> length (file_list self)" by simp
    from KS paths have k3: "map up_path (uploads tr) = take K (file_list self)" by simp
    from K u gu have k4: "list_all good (take (K - 1) (uploads tr))" by simp
    from tn s have k5: "submissions tr = []" by simp
    from raised(2) ee pu K have k6: "res = Inl (IOError (FailedToUpload (file_list self ! (K - 1))))"
      by simp
    from k1 k2 k3 k4 k5 k6 show ?thesis by blast
  qed
qed

theorem C2_submit_upload_fails_witness:
  "submit (example_env PNone [1])
       (example_assignment [''hw/a/1.txt'', ''hw/a/2.txt'', ''hw/b/x.py'']) (0, []) =
     (Inl (IOError (FailedToUpload ''hw/a/2.txt'')), (2, second_fails_trace)) \<and>
   \<not> up_success (uploads second_fails_trace ! 1) \<and>
   up_success (uploads second_fails_trace ! 0) \<and>
   map up_path (uploads second_fails_trace) = [''hw/a/1.txt'', ''hw/a/2.txt''] \<and>
   submissions second_fails_trace = []"
proof -
  let ?E = "example_env PNone [1]"
  let ?self = "example_assignment [''hw/a/1.txt'', ''hw/a/2.txt'', ''hw/b/x.py'']"
  have r: "submit ?E ?self (0, []) =
     (Inl (IOError (FailedToUpload ''hw/a/2.txt'')), (2, second_fails_trace))"
    by (simp add: run_defs trace_defs)
  have fl: "file_list ?self = [''hw/a/1.txt'', ''hw/a/2.txt'', ''hw/b/x.py'']"
    by (simp add: example_assignment_def)
  have k1: "0 < (2::nat)" by simp
  have k2: "2 \<le> length (uploads second_fails_trace)"
    by (simp add: trace_defs)
  have k3: "\<not> up_success (uploads second_fails_trace ! (2 - 1))"
    by (simp add: trace_defs)
  have k0: "up_success (uploads second_fails_trace ! 0)"
    by (simp add: trace_defs)
  note t = C2_submit_upload_fails [OF r k1 k2 k3]
  from t have p: "map up_path (uploads second_fails_trace) = take 2 (file_list ?self)"
    by blast
  from t have s: "submissions second_fails_trace = []"
    by blast
  from p fl have p': "map up_path (uploads second_fails_trace) = [''hw/a/1.txt'', ''hw/a/2.txt'']"
    by simp
  from k3 have k3': "\<not> up_success (uploads second_fails_trace ! 1)" by simp
  from r k3' k0 p' s show ?thesis by blast
qed

text \<open>
  C10: when \<^verbatim>\<open>path\<close> is not an existing regular file, \<^verbatim>\<open>upload_file_to_assignment\<close>
  raises \<^verbatim>\<open>ValueError\<close> and leaves world and trace as they were: nothing is printed and
  the upload endpoint is not called. So when the loop of \<^verbatim>\<open>submit\<close> has uploaded the
  files before such a path, \<^verbatim>\<open>submit\<close> raises that \<^verbatim>\<open>ValueError\<close> in the state those
  uploads left: no call is made for the path, for the files after it, or to submit.
\<close>

theorem C10_upload_requires_file:
  assumes "\<not> os_path_isfile E w p"
  shows "upload_file_to_assignment E req cid aid uid p (w, tr) =
           (Inl (ValueError MustBeFile), (w, tr)) \<and>
    (file_list self = pre @ p # post \<and>
     upload_loop E self pre [] st0 = (Inr ids, (w, tr)) \<longrightarrow>
       submit E self st0 = (Inl (ValueError MustBeFile), (w, tr)))"
proof -
  have a: "upload_file_to_assignment E r c a u p (w, tr) =
           (Inl (ValueError MustBeFile), (w, tr))" for r c a u
    using assms by (simp add: upload_file_to_assignment_def)
  have b: "submit E self st0 = (Inl (ValueError MustBeFile), (w, tr))"
    if f: "file_list self = pre @ p # post"
      and l: "upload_loop E self pre [] st0 = (Inr ids, (w, tr))"
  proof -
    have "upload_loop E self (p # post) ids (w, tr) = (Inl (ValueError MustBeFile), (w, tr))"
      by (simp add: a)
    then have "upload_loop E self (pre @ p # post) [] st0 = (Inl (ValueError MustBeFile), (w, tr))"
      by (simp only: upload_loop_append l) simp
    then show ?thesis by (simp add: submit_def f)
  qed
  from a b show ?thesis by blast
qed

theorem C10_upload_requires_file_witness:
  "\<not> os_path_isfile (example_env PNone []) 1 ''hw/gone.txt'' \<and>
   upload_file_to_assignment (example_env PNone [])
       (PStr ''https://canvas.example.edu'', PStr ''secret'') (PInt 42) (PInt 7) (PInt 1001)
       ''hw/gone.txt'' (1, first_upload_trace) =
     (Inl (ValueError MustBeFile), (1, first_upload_trace)) \<and>
   submit (example_env PNone [])
       (example_assignment [''hw/a/1.txt'', ''hw/gone.txt'', ''hw/b/x.py'']) (0, []) =
     (Inl (ValueError MustBeFile), (1, first_upload_trace))"
proof -
  let ?E = "example_env PNone []"
  let ?self = "example_assignment [''hw/a/1.txt'', ''hw/gone.txt'', ''hw/b/x.py'']"
  have nf: "\<not> os_path_isfile ?E 1 ''hw/gone.txt''"
    by (simp add: example_env_def example_files_def)
  have fl: "file_list ?self = [''hw/a/1.txt''] @ ''hw/gone.txt'' # [''hw/b/x.py'']"
    by (simp add: example_assignment_def)
  have l: "upload_loop ?E ?self [''hw/a/1.txt''] [] (0, []) = (Inr [PInt 500], (1, first_upload_trace))"
    by (simp add: run_defs trace_defs)
  note t = C10_upload_requires_file [OF nf,
      where req = "(PStr ''https://canvas.example.edu'', PStr ''secret'')"
        and cid = "PInt 42" and aid = "PInt 7" and uid = "PInt 1001"
        and tr = first_upload_trace and self = ?self and pre = "[''hw/a/1.txt'']"
        and post = "[''hw/b/x.py'']" and ?st0.0 = "(0, [])" and ids = "[PInt 500]"]
  from t have a: "upload_file_to_assignment ?E
       (PStr ''https://canvas.example.edu'', PStr ''secret'') (PInt 42) (PInt 7) (PInt 1001)
       ''hw/gone.txt'' (1, first_upload_trace) =
     (Inl (ValueError MustBeFile), (1, first_upload_trace))"
    by blast
  from t fl l have b: "submit ?E ?self (0, []) =
     (Inl (ValueError MustBeFile), (1, first_upload_trace))"
    by blast
  from nf a b show ?thesis by blast
qed

end
